theory Spec2Isabelle
  imports Complex_Main "HOL-Library.Sublist"
begin

section \<open>Python values and string primitives\<close>

text \<open>
  Reply texts, keys and messages are Python \<open>str\<close> values, modelled as \<open>string\<close>
  (a list of 8-bit characters, read as code points below 256). The primitives below are
  the built-in \<open>str\<close> operations the repository calls: \<open>in\<close>, \<open>find\<close>,
  \<open>rfind\<close>, slicing, \<open>strip\<close> and \<open>join\<close>.
\<close>

text \<open>The exception classes of the endpoint's client library that the handlers of
  \<open>analyze_rfp\<close> can meet, and each class's bases inside that library (the class itself
  first). The hierarchy is the library's: every class derives from \<open>APIError\<close>, and
  \<open>APITimeoutError\<close> derives from \<open>APIConnectionError\<close>.\<close>

datatype api_class =
    APIError
  | APIResponseValidationError
  | APIStatusError
  | APIConnectionError
  | APITimeoutError
  | BadRequestError
  | AuthenticationError
  | PermissionDeniedError
  | NotFoundError
  | RateLimitError
  | InternalServerError

fun api_bases :: "api_class \<Rightarrow> api_class list" where
  "api_bases APIError = [APIError]"
| "api_bases APIResponseValidationError = [APIResponseValidationError, APIError]"
| "api_bases APIStatusError = [APIStatusError, APIError]"
| "api_bases APIConnectionError = [APIConnectionError, APIError]"
| "api_bases APITimeoutError = [APITimeoutError, APIConnectionError, APIError]"
| "api_bases BadRequestError = [BadRequestError, APIStatusError, APIError]"
| "api_bases AuthenticationError = [AuthenticationError, APIStatusError, APIError]"
| "api_bases PermissionDeniedError = [PermissionDeniedError, APIStatusError, APIError]"
| "api_bases NotFoundError = [NotFoundError, APIStatusError, APIError]"
| "api_bases RateLimitError = [RateLimitError, APIStatusError, APIError]"
| "api_bases InternalServerError = [InternalServerError, APIStatusError, APIError]"

text \<open>The exceptions the repository raises or catches. \<open>JSONDecodeError info doc\<close> carries
  the document that failed to decode, as the class of the standard library does; \<open>info\<close>
  is \<open>Some (msg, pos)\<close> for the one the repository raises itself and \<open>None\<close> for one
  raised inside \<open>json.loads\<close>, whose message and position are the library's own.
  \<open>AnthropicError c m\<close> is an exception of class \<open>c\<close> of the client library whose
  \<open>str\<close> is \<open>m\<close>; \<open>IllegalCharacterError v\<close> is the spreadsheet library's, with the
  text it refuses; \<open>Exception msg\<close> is the plain exception the repository raises with
  a message.\<close>

datatype py_error =
    JSONDecodeError "(string \<times> nat) option" string
  | TypeError
  | AttributeError
  | IndexError
  | ValueError
  | IllegalCharacterError string
  | AnthropicError api_class string
  | Exception string

text \<open>The values \<open>json.loads\<close> can return (floats left out).\<close>

datatype py_value =
    PyNone
  | PyBool bool
  | PyInt int
  | PyStr string
  | PyList "py_value list"
  | PyDict "(string \<times> py_value) list"

type_synonym 'v dict = "(string \<times> 'v) list"

text \<open>\<open>k in d\<close> and \<open>d.get(k, default)\<close> on a dict.\<close>

definition dict_contains :: "string \<Rightarrow> 'v dict \<Rightarrow> bool" where
  "dict_contains k d = (map_of d k \<noteq> None)"

definition dict_get :: "'v dict \<Rightarrow> string \<Rightarrow> 'v \<Rightarrow> 'v" where
  "dict_get d k dflt = (case map_of d k of Some v \<Rightarrow> v | None \<Rightarrow> dflt)"

text \<open>\<open>find_at sub s i\<close>: the lowest index, counted from \<open>i\<close>, at which \<open>sub\<close> occurs
  in \<open>s\<close>.\<close>

fun find_at :: "'a list \<Rightarrow> 'a list \<Rightarrow> nat \<Rightarrow> nat option" where
  "find_at sub [] i = (if sub = [] then Some i else None)"
| "find_at sub (x # xs) i =
     (if prefix sub (x # xs) then Some i else find_at sub xs (Suc i))"

text \<open>\<open>s.find(sub, start)\<close> for \<open>start \<ge> 0\<close>: the lowest index at or after \<open>start\<close>
  where \<open>sub\<close> occurs, \<open>-1\<close> when there is none.\<close>

definition py_find :: "'a list \<Rightarrow> 'a list \<Rightarrow> nat \<Rightarrow> int" where
  "py_find s sub start =
     (if length s < start then - 1
      else case find_at sub (drop start s) start of Some i \<Rightarrow> int i | None \<Rightarrow> - 1)"

text \<open>\<open>sub in s\<close> on strings.\<close>

definition py_in :: "'a list \<Rightarrow> 'a list \<Rightarrow> bool" where
  "py_in sub s = (find_at sub s 0 \<noteq> None)"

text \<open>\<open>rfind_at sub s i\<close>: the highest index, counted from \<open>i\<close>, at which \<open>sub\<close> occurs
  in \<open>s\<close>.\<close>

fun rfind_at :: "'a list \<Rightarrow> 'a list \<Rightarrow> nat \<Rightarrow> nat option" where
  "rfind_at sub [] i = (if sub = [] then Some i else None)"
| "rfind_at sub (x # xs) i =
     (case rfind_at sub xs (Suc i) of
        Some j \<Rightarrow> Some j
      | None \<Rightarrow> if prefix sub (x # xs) then Some i else None)"

definition py_rfind :: "'a list \<Rightarrow> 'a list \<Rightarrow> int" where
  "py_rfind s sub = (case rfind_at sub s 0 of Some i \<Rightarrow> int i | None \<Rightarrow> - 1)"

text \<open>\<open>s[lo:hi]\<close>: a negative index counts from the end, and both are clamped to the
  string.\<close>

definition slice_index :: "nat \<Rightarrow> int \<Rightarrow> nat" where
  "slice_index n i = (if i < 0 then nat (max 0 (int n + i)) else min (nat i) n)"

definition py_slice :: "'a list \<Rightarrow> int \<Rightarrow> int \<Rightarrow> 'a list" where
  "py_slice s lo hi =
     (let a = slice_index (length s) lo; b = slice_index (length s) hi
      in take (b - a) (drop a s))"

text \<open>\<open>c.isspace()\<close> for a code point below 256, and \<open>s.strip()\<close>.\<close>

definition py_isspace :: "char \<Rightarrow> bool" where
  "py_isspace c =
     (let n = of_char c :: nat
      in (9 \<le> n \<and> n \<le> 13) \<or> (28 \<le> n \<and> n \<le> 32) \<or> n = 133 \<or> n = 160)"

definition py_strip :: "string \<Rightarrow> string" where
  "py_strip s = rev (dropWhile py_isspace (rev (dropWhile py_isspace s)))"

text \<open>\<open>sep.join(xs)\<close>.\<close>

fun py_join :: "string \<Rightarrow> string list \<Rightarrow> string" where
  "py_join sep [] = []"
| "py_join sep [x] = x"
| "py_join sep (x # y # ys) = x @ sep @ py_join sep (y # ys)"

section \<open>Structural validation (\<open>ClaudeRFPClient.validate_analysis_structure\<close>)\<close>

definition required_fields :: "string list" where
  "required_fields =
     [''client_problems'', ''requirements'', ''gotchas'', ''timeline'', ''next_steps'',
      ''alignment_questions'']"

definition missing_fields :: "'v dict \<Rightarrow> string list" where
  "missing_fields analysis = filter (\<lambda>f. \<not> dict_contains f analysis) required_fields"

definition validate_analysis_structure :: "'v dict \<Rightarrow> py_error + bool" where
  "validate_analysis_structure analysis =
     (if missing_fields analysis \<noteq> []
      then Inl (Exception (''Analysis missing required fields: ''
                 @ py_join '', '' (missing_fields analysis)))
      else Inr True)"

text \<open>The list of missing fields as a function of which of the six keys are present
  (used to enumerate the 64 cases of the error message).\<close>

definition missing_of :: "bool \<Rightarrow> bool \<Rightarrow> bool \<Rightarrow> bool \<Rightarrow> bool \<Rightarrow> bool \<Rightarrow> string list" where
  "missing_of b1 b2 b3 b4 b5 b6 =
     (if b1 then [] else [''client_problems'']) @ (if b2 then [] else [''requirements''])
     @ (if b3 then [] else [''gotchas'']) @ (if b4 then [] else [''timeline''])
     @ (if b5 then [] else [''next_steps'']) @ (if b6 then [] else [''alignment_questions''])"

section \<open>Response recovery (\<open>ClaudeRFPClient._parse_json_response\<close>)\<close>

text \<open>
  \<open>json.loads\<close> belongs to the standard library, so the recovery function takes the
  decoder as a parameter: a function from the text to the decoded value, \<open>None\<close> when
  the library raises \<open>JSONDecodeError\<close>. \<open>loads\<close> is the call as the repository sees
  it: the raised error carries the text that was passed.
\<close>

type_synonym 'j decoder = "string \<Rightarrow> 'j option"

definition loads :: "'j decoder \<Rightarrow> string \<Rightarrow> py_error + 'j" where
  "loads dec s = (case dec s of Some v \<Rightarrow> Inr v | None \<Rightarrow> Inl (JSONDecodeError None s))"

definition parse_json_response :: "'j decoder \<Rightarrow> string \<Rightarrow> py_error + 'j" where
  "parse_json_response dec response_text =
     (case loads dec response_text of
        Inr v \<Rightarrow> Inr v
      | Inl _ \<Rightarrow>
          if py_in ''```json'' response_text then
            (let start = py_find response_text ''```json'' 0 + 7;
                 end = py_find response_text ''```'' (nat start);
                 json_str = py_strip (py_slice response_text start end)
             in loads dec json_str)
          else if py_in ''```'' response_text then
            (let start = py_find response_text ''```'' 0 + 3;
                 end = py_find response_text ''```'' (nat start);
                 json_str = py_strip (py_slice response_text start end)
             in loads dec json_str)
          else
            (let start = py_find response_text ''{'' 0;
                 end = py_rfind response_text ''}'' + 1
             in if start \<noteq> - 1 \<and> end > start
                then loads dec (py_slice response_text start end)
                else Inl (JSONDecodeError
                       (Some (''Could not find valid JSON in response'', 0)) response_text)))"

subsection \<open>The recovery algorithm as the specification words it\<close>

text \<open>
  The substring each of the strategies 2 to 4 of the specification extracts when it
  applies to the reply, the four strategies as functions from the reply to an optional
  decoded value, and their composition "try in order until one succeeds". These follow
  the specification's sentences, not the source; they are what
  \<open>parse_json_response\<close> is compared with.
\<close>

definition tagged_fence_candidate :: "string \<Rightarrow> string option" where
  "tagged_fence_candidate text =
     (if py_in ''```json'' text
      then (let start = py_find text ''```json'' 0 + 7
            in Some (py_strip (py_slice text start (py_find text ''```'' (nat start)))))
      else None)"

definition fence_candidate :: "string \<Rightarrow> string option" where
  "fence_candidate text =
     (if py_in ''```'' text
      then (let start = py_find text ''```'' 0 + 3
            in Some (py_strip (py_slice text start (py_find text ''```'' (nat start)))))
      else None)"

definition braces_candidate :: "string \<Rightarrow> string option" where
  "braces_candidate text =
     (let start = py_find text ''{'' 0; end = py_rfind text ''}'' + 1
      in if start \<noteq> - 1 \<and> end > start then Some (py_slice text start end) else None)"

definition strategy_whole :: "'j decoder \<Rightarrow> string \<Rightarrow> 'j option" where
  "strategy_whole dec text = dec text"

definition strategy_tagged_fence :: "'j decoder \<Rightarrow> string \<Rightarrow> 'j option" where
  "strategy_tagged_fence dec text = Option.bind (tagged_fence_candidate text) dec"

definition strategy_fence :: "'j decoder \<Rightarrow> string \<Rightarrow> 'j option" where
  "strategy_fence dec text = Option.bind (fence_candidate text) dec"

definition strategy_braces :: "'j decoder \<Rightarrow> string \<Rightarrow> 'j option" where
  "strategy_braces dec text = Option.bind (braces_candidate text) dec"

fun first_success :: "('a \<Rightarrow> 'b option) list \<Rightarrow> 'a \<Rightarrow> 'b option" where
  "first_success [] x = None"
| "first_success (f # fs) x = (case f x of Some v \<Rightarrow> Some v | None \<Rightarrow> first_success fs x)"

text \<open>The substring of the first strategy after the first that applies to the reply.\<close>

definition first_applicable :: "string \<Rightarrow> string option" where
  "first_applicable text =
     first_success [tagged_fence_candidate, fence_candidate, braces_candidate] text"

definition recover_in_order :: "'j decoder \<Rightarrow> string \<Rightarrow> 'j option" where
  "recover_in_order dec text =
     first_success [strategy_whole dec, strategy_tagged_fence dec, strategy_fence dec,
                    strategy_braces dec] text"

subsection \<open>A JSON decoder for concrete replies\<close>

text \<open>
  A decoder for the fragment of JSON without floating-point numbers, following the
  scanner of the standard library: whitespace is space, tab, line feed and carriage
  return; a string ends at the next unescaped double quote and may not hold a control
  character; a later duplicate key replaces the value of an earlier one. It serves to
  evaluate the recovery function on concrete replies; the general theorems hold for
  every decoder.
\<close>

definition json_ws :: "char \<Rightarrow> bool" where
  "json_ws c = (c = CHR '' '' \<or> c = CHR 0x09 \<or> c = CHR 0x0A \<or> c = CHR 0x0D)"

definition skip_ws :: "string \<Rightarrow> string" where
  "skip_ws s = dropWhile json_ws s"

definition is_digit :: "char \<Rightarrow> bool" where
  "is_digit c = (48 \<le> (of_char c :: nat) \<and> (of_char c :: nat) \<le> 57)"

definition digit_val :: "char \<Rightarrow> nat" where
  "digit_val c = of_char c - 48"

definition hex_val :: "char \<Rightarrow> nat option" where
  "hex_val c =
     (let n = of_char c :: nat
      in if 48 \<le> n \<and> n \<le> 57 then Some (n - 48)
         else if 97 \<le> n \<and> n \<le> 102 then Some (n - 87)
         else if 65 \<le> n \<and> n \<le> 70 then Some (n - 55)
         else None)"

definition unescape :: "char \<Rightarrow> char option" where
  "unescape e =
     (if e = CHR 0x22 then Some (CHR 0x22)
      else if e = CHR 0x5C then Some (CHR 0x5C)
      else if e = CHR ''/'' then Some (CHR ''/'')
      else if e = CHR ''b'' then Some (CHR 0x08)
      else if e = CHR ''f'' then Some (CHR 0x0C)
      else if e = CHR ''n'' then Some (CHR 0x0A)
      else if e = CHR ''r'' then Some (CHR 0x0D)
      else if e = CHR ''t'' then Some (CHR 0x09)
      else None)"

text \<open>\<open>scan_string s acc\<close> reads a string body after its opening quote; a \<open>\u\<close> escape
  is decoded when its code point is below 256.\<close>

fun scan_string :: "string \<Rightarrow> string \<Rightarrow> (string \<times> string) option" where
  "scan_string [] acc = None"
| "scan_string (c # cs) acc =
     (if c = CHR 0x22 then Some (rev acc, cs)
      else if c = CHR 0x5C then
        (case cs of
           [] \<Rightarrow> None
         | e # r \<Rightarrow>
             if e = CHR ''u'' then
               (case r of
                  h1 # h2 # h3 # h4 # r' \<Rightarrow>
                    (case (hex_val h1, hex_val h2, hex_val h3, hex_val h4) of
                       (Some a, Some b, Some c', Some d) \<Rightarrow>
                         if a = 0 \<and> b = 0
                         then scan_string r' (char_of (16 * c' + d) # acc)
                         else None
                     | _ \<Rightarrow> None)
                | _ \<Rightarrow> None)
             else (case unescape e of
                     Some ch \<Rightarrow> scan_string r (ch # acc)
                   | None \<Rightarrow> None))
      else if (of_char c :: nat) < 32 then None
      else scan_string cs (c # acc))"

text \<open>An integer literal: an optional minus sign, then \<open>0\<close> or a non-zero digit followed
  by digits. A literal that goes on as a fraction or an exponent is a float, outside the
  fragment.\<close>

definition digits_val :: "string \<Rightarrow> nat" where
  "digits_val ds = foldl (\<lambda>n d. 10 * n + digit_val d) 0 ds"

definition float_tail :: "string \<Rightarrow> bool" where
  "float_tail r =
     (case r of
        [] \<Rightarrow> False
      | c # r1 \<Rightarrow>
          if c = CHR ''.'' then (case r1 of [] \<Rightarrow> False | d # _ \<Rightarrow> is_digit d)
          else if c = CHR ''e'' \<or> c = CHR ''E'' then
            (case r1 of
               [] \<Rightarrow> False
             | d # r2 \<Rightarrow>
                 if d = CHR ''+'' \<or> d = CHR ''-''
                 then (case r2 of [] \<Rightarrow> False | d' # _ \<Rightarrow> is_digit d')
                 else is_digit d)
          else False)"

definition scan_number :: "string \<Rightarrow> (py_value \<times> string) option" where
  "scan_number s =
     (let neg = (case s of [] \<Rightarrow> False | c # _ \<Rightarrow> c = CHR ''-'');
          r = (if neg then tl s else s)
      in case r of
           [] \<Rightarrow> None
         | d # r1 \<Rightarrow>
             if \<not> is_digit d then None
             else
               (let ds = (if d = CHR ''0'' then [d] else d # takeWhile is_digit r1);
                    rest = (if d = CHR ''0'' then r1 else dropWhile is_digit r1);
                    n = int (digits_val ds)
                in if float_tail rest then None
                   else Some (PyInt (if neg then - n else n), rest)))"

text \<open>\<open>d[k] = v\<close> on a dict: an existing key keeps its place.\<close>

fun dict_set :: "'v dict \<Rightarrow> string \<Rightarrow> 'v \<Rightarrow> 'v dict" where
  "dict_set [] k v = [(k, v)]"
| "dict_set ((k', v') # d) k v = (if k' = k then (k, v) # d else (k', v') # dict_set d k v)"

text \<open>The scanner for values, array elements and object members. The first argument
  bounds the number of nested calls; \<open>json_decode\<close> starts it above twice the length of
  the text.\<close>

fun scan_once :: "nat \<Rightarrow> string \<Rightarrow> (py_value \<times> string) option"
  and scan_array :: "nat \<Rightarrow> string \<Rightarrow> py_value list \<Rightarrow> (py_value \<times> string) option"
  and scan_object :: "nat \<Rightarrow> string \<Rightarrow> py_value dict \<Rightarrow> (py_value \<times> string) option"
where
  "scan_once 0 s = None"
| "scan_once (Suc n) s =
     (case s of
        [] \<Rightarrow> None
      | c # cs \<Rightarrow>
          if c = CHR 0x22 then
            (case scan_string cs [] of Some (str, r) \<Rightarrow> Some (PyStr str, r) | None \<Rightarrow> None)
          else if c = CHR ''{'' then
            (case skip_ws cs of
               [] \<Rightarrow> None
             | c1 # r \<Rightarrow> if c1 = CHR ''}'' then Some (PyDict [], r)
                         else scan_object n (c1 # r) [])
          else if c = CHR ''['' then
            (case skip_ws cs of
               [] \<Rightarrow> None
             | c1 # r \<Rightarrow> if c1 = CHR '']'' then Some (PyList [], r)
                         else scan_array n (c1 # r) [])
          else if prefix ''null'' s then Some (PyNone, drop 4 s)
          else if prefix ''true'' s then Some (PyBool True, drop 4 s)
          else if prefix ''false'' s then Some (PyBool False, drop 5 s)
          else scan_number s)"
| "scan_array 0 s acc = None"
| "scan_array (Suc n) s acc =
     (case scan_once n s of
        None \<Rightarrow> None
      | Some (v, r) \<Rightarrow>
          (case skip_ws r of
             [] \<Rightarrow> None
           | c # r1 \<Rightarrow>
               if c = CHR '']'' then Some (PyList (acc @ [v]), r1)
               else if c = CHR '','' then scan_array n (skip_ws r1) (acc @ [v])
               else None))"
| "scan_object 0 s acc = None"
| "scan_object (Suc n) s acc =
     (case s of
        [] \<Rightarrow> None
      | q # cs \<Rightarrow>
          if q \<noteq> CHR 0x22 then None
          else
            (case scan_string cs [] of
               None \<Rightarrow> None
             | Some (k, r) \<Rightarrow>
                 (case skip_ws r of
                    [] \<Rightarrow> None
                  | c # r1 \<Rightarrow>
                      if c \<noteq> CHR '':'' then None
                      else
                        (case scan_once n (skip_ws r1) of
                           None \<Rightarrow> None
                         | Some (v, r2) \<Rightarrow>
                             (case skip_ws r2 of
                                [] \<Rightarrow> None
                              | c2 # r3 \<Rightarrow>
                                  if c2 = CHR ''}'' then Some (PyDict (dict_set acc k v), r3)
                                  else if c2 = CHR '','' then
                                    scan_object n (skip_ws r3) (dict_set acc k v)
                                  else None)))))"

definition json_decode :: "py_value decoder" where
  "json_decode s =
     (case scan_once (2 * length s + 2) (skip_ws s) of
        None \<Rightarrow> None
      | Some (v, r) \<Rightarrow> if skip_ws r = [] then Some v else None)"

section \<open>The analysis call (\<open>ClaudeRFPClient.analyze_rfp\<close>)\<close>

text \<open>
  The endpoint is outside the repository: the call \<open>client.messages.create\<close> is a
  parameter that maps the request to its outcome, an exception or the content blocks of the
  returned message. \<open>.text\<close> exists on a text block only. \<open>str(e)\<close> is a parameter as
  well.
\<close>

record request =
  req_model :: string
  req_max_tokens :: nat
  req_media_type :: string
  req_data :: string
  req_text :: string

datatype content_block = TextBlock string | OtherBlock

datatype endpoint_result = Raises py_error | Returns "content_block list"

text \<open>\<open>isinstance(e, c)\<close> for a class \<open>c\<close> of the client library, and for
  \<open>json.JSONDecodeError\<close>.\<close>

fun isinstance_api :: "py_error \<Rightarrow> api_class \<Rightarrow> bool" where
  "isinstance_api (AnthropicError c' m) c = (c \<in> set (api_bases c'))"
| "isinstance_api e c = False"

fun is_JSONDecodeError :: "py_error \<Rightarrow> bool" where
  "is_JSONDecodeError (JSONDecodeError info doc) = True"
| "is_JSONDecodeError e = False"

text \<open>The body of the \<open>try\<close> block, then the \<open>except\<close> clauses in the order of the
  source: the first clause whose class the exception is an instance of handles it.\<close>

definition analyze_rfp_body ::
  "'j decoder \<Rightarrow> (request \<Rightarrow> endpoint_result) \<Rightarrow> string \<Rightarrow> string \<Rightarrow> py_error + 'j" where
  "analyze_rfp_body dec create pdf_base64 prompt =
     (case create \<lparr>req_model = ''claude-sonnet-4-20250514'', req_max_tokens = 16000,
                    req_media_type = ''application/pdf'', req_data = pdf_base64,
                    req_text = prompt\<rparr> of
        Raises e \<Rightarrow> Inl e
      | Returns content \<Rightarrow>
          (case content of
             [] \<Rightarrow> Inl IndexError
           | b # _ \<Rightarrow>
               (case b of
                  TextBlock response_text \<Rightarrow> parse_json_response dec response_text
                | OtherBlock \<Rightarrow> Inl AttributeError)))"

definition analyze_rfp ::
  "(py_error \<Rightarrow> string) \<Rightarrow> 'j decoder \<Rightarrow> (request \<Rightarrow> endpoint_result) \<Rightarrow> string \<Rightarrow> string
     \<Rightarrow> py_error + 'j" where
  "analyze_rfp str_of dec create pdf_base64 prompt =
     (case analyze_rfp_body dec create pdf_base64 prompt of
        Inr analysis \<Rightarrow> Inr analysis
      | Inl e \<Rightarrow>
          if isinstance_api e APIError then
            Inl (Exception (''Claude API error: '' @ str_of e))
          else if isinstance_api e APITimeoutError then
            Inl (Exception ''Request timed out. Please try again.'')
          else if is_JSONDecodeError e then
            Inl (Exception (''Failed to parse Claude response as JSON: '' @ str_of e))
          else
            Inl (Exception (''Unexpected error during RFP analysis: '' @ str_of e)))"

text \<open>An endpoint that times out on every request.\<close>

definition timing_out :: "string \<Rightarrow> request \<Rightarrow> endpoint_result" where
  "timing_out m req = Raises (AnthropicError APITimeoutError m)"

section \<open>Upload validation (\<open>validate_pdf\<close>, \<open>validate_file_upload\<close>)\<close>

text \<open>
  The uploaded file is a byte stream with a name and a read position. The PDF library is
  outside the repository: \<open>PdfReader(f)\<close> followed by \<open>len(reader.pages)\<close> is a parameter
  that maps the stream to its outcome (a page count, \<open>PdfReadError\<close>, or another
  exception with its \<open>str\<close>) and to the position at which it leaves the stream. It cannot
  change the bytes or the name.
\<close>

type_synonym bytes = "char list"

record uploaded_file =
  name :: string
  data :: bytes
  pos :: nat

datatype pdf_outcome = Pages nat | PdfReadError | OtherError string

type_synonym pdf_reader = "uploaded_file \<Rightarrow> pdf_outcome \<times> nat"

definition seek :: "uploaded_file \<Rightarrow> nat \<Rightarrow> uploaded_file" where
  "seek f p = f\<lparr>pos := p\<rparr>"

definition validate_pdf :: "pdf_reader \<Rightarrow> uploaded_file \<Rightarrow> (bool \<times> string) \<times> uploaded_file" where
  "validate_pdf reader f =
     (case reader f of
        (Pages page_count, p) \<Rightarrow>
          (let f' = seek (f\<lparr>pos := p\<rparr>) 0
           in if page_count = 0 then ((False, ''PDF appears to be empty (0 pages)''), f')
              else ((True, []), f'))
      | (PdfReadError, p) \<Rightarrow>
          ((False, ''File is not a valid PDF or is corrupted''), f\<lparr>pos := p\<rparr>)
      | (OtherError m, p) \<Rightarrow> ((False, ''Error reading PDF: '' @ m), f\<lparr>pos := p\<rparr>))"

text \<open>The cross mark of the messages (U+274C), as its UTF-8 bytes.\<close>

definition cross_mark :: string where
  "cross_mark = [CHR 0xE2, CHR 0x9D, CHR 0x8C]"

text \<open>
  \<open>validate_file_upload\<close> returns its verdict; the reason goes to the page through
  \<open>st.error\<close>, modelled as the list of messages shown. The size in MiB is the quotient of
  the byte count by \<open>1024 * 1024\<close>: a division by a power of two, which floating-point
  arithmetic performs exactly, so the quotient is taken in the reals. \<open>fmt2\<close> is the
  \<open>:.2f\<close> formatting of that number.
\<close>

definition validate_file_upload ::
  "pdf_reader \<Rightarrow> (real \<Rightarrow> string) \<Rightarrow> uploaded_file \<Rightarrow> (bool \<times> string list) \<times> uploaded_file" where
  "validate_file_upload reader fmt2 f =
     (let file_size_mb = real (length (data f)) / (1024 * 1024)
      in if file_size_mb > 10
         then ((False, [cross_mark @ '' File too large ('' @ fmt2 file_size_mb
                          @ ''MB). Maximum size is 10MB.'']), f)
         else
           (case validate_pdf reader f of
              ((is_valid, error_msg), f') \<Rightarrow>
                if \<not> is_valid then ((False, [cross_mark @ '' '' @ error_msg]), f')
                else ((True, []), f')))"

text \<open>A reader for concrete streams: it reads the stream to its end, accepts it with one
  page when it starts with the PDF magic bytes and rejects it otherwise. \<open>two_decimals\<close>
  fills the place of the number formatting at concrete streams; no statement below reads
  the text it returns.\<close>

definition magic_reader :: pdf_reader where
  "magic_reader f =
     (if prefix ''%PDF-'' (data f) then (Pages 1, length (data f))
      else (PdfReadError, length (data f)))"

definition two_decimals :: "real \<Rightarrow> string" where
  "two_decimals x = ''0.00''"

section \<open>The report renderer (\<open>RFPAnalysisGenerator\<close>)\<close>

text \<open>
  The rendering library is outside the repository. Its flowables are data: a paragraph with
  its text and style name, a spacer with its width and height in points, a page break, a
  table with its rows of cells and its column widths (the table's style commands are a
  constant of the source and are left out). A document is the template's page size and
  margins together with the story.
\<close>

datatype style_name = CustomTitle | SectionHeader | BulletText | Metadata | Normal

datatype flowable =
    Paragraph string style_name
  | Spacer rat rat
  | PageBreak
  | Table "py_value list list" "rat list"

record document =
  pagesize :: "rat \<times> rat"
  margins :: "rat \<times> rat \<times> rat \<times> rat"
  story :: "flowable list"

definition inch :: rat where
  "inch = 72"

text \<open>Python's truth value of a decoded value, and the items a \<open>for\<close> loop over it yields
  (\<open>TypeError\<close> when it is not iterable): a string yields its characters, a dict its
  keys.\<close>

fun truthy :: "py_value \<Rightarrow> bool" where
  "truthy PyNone = False"
| "truthy (PyBool b) = b"
| "truthy (PyInt n) = (n \<noteq> 0)"
| "truthy (PyStr s) = (s \<noteq> [])"
| "truthy (PyList xs) = (xs \<noteq> [])"
| "truthy (PyDict d) = (d \<noteq> [])"

fun py_iter :: "py_value \<Rightarrow> py_error + py_value list" where
  "py_iter (PyList xs) = Inr xs"
| "py_iter (PyStr s) = Inr (map (\<lambda>c. PyStr [c]) s)"
| "py_iter (PyDict d) = Inr (map (\<lambda>kv. PyStr (fst kv)) d)"
| "py_iter v = Inl TypeError"

text \<open>\<open>len(v)\<close>.\<close>

fun py_len :: "py_value \<Rightarrow> py_error + nat" where
  "py_len (PyList xs) = Inr (length xs)"
| "py_len (PyStr s) = Inr (length s)"
| "py_len (PyDict d) = Inr (length d)"
| "py_len v = Inl TypeError"

text \<open>\<open>str(v)\<close>: the string itself for a string; for any other value the text Python
  prints, a parameter.\<close>

fun py_str :: "(py_value \<Rightarrow> string) \<Rightarrow> py_value \<Rightarrow> string" where
  "py_str repr (PyStr s) = s"
| "py_str repr v = repr v"

text \<open>A printing function for concrete analyses in which only strings and \<open>None\<close>
  are printed.\<close>

definition repr_none :: "py_value \<Rightarrow> string" where
  "repr_none v = ''None''"

text \<open>The bullet (U+2022), as its UTF-8 bytes.\<close>

definition bullet :: string where
  "bullet = [CHR 0xE2, CHR 0x80, CHR 0xA2]"

text \<open>
  Building a paragraph. The library parses the text of a paragraph as markup when the
  paragraph is constructed, and raises \<open>ValueError\<close> when it rejects it. A paragraph
  whose text is a literal of the source is data (the report renders these texts in every
  run); a paragraph whose text is a variable is built by \<open>mk_paragraph\<close>, which takes the
  library's verdict on the text as a parameter \<open>accepts\<close>.
\<close>

definition mk_paragraph :: "(string \<Rightarrow> bool) \<Rightarrow> string \<Rightarrow> style_name \<Rightarrow> py_error + flowable" where
  "mk_paragraph accepts t st = (if accepts t then Inr (Paragraph t st) else Inl ValueError)"

text \<open>The loop \<open>for item in items\<close> of the bullet section: each item is stringified and
  trimmed, and its paragraph is built.\<close>

fun bullet_paragraphs ::
  "(string \<Rightarrow> bool) \<Rightarrow> (py_value \<Rightarrow> string) \<Rightarrow> py_value list \<Rightarrow> py_error + flowable list" where
  "bullet_paragraphs accepts repr [] = Inr []"
| "bullet_paragraphs accepts repr (item # items) =
     (let item_text = py_strip (py_str repr item)
      in case mk_paragraph accepts (bullet @ '' '' @ item_text) BulletText of
           Inl e \<Rightarrow> Inl e
         | Inr p \<Rightarrow>
             (case bullet_paragraphs accepts repr items of
                Inl e \<Rightarrow> Inl e
              | Inr ps \<Rightarrow> Inr (p # ps)))"

definition create_bullet_section ::
  "(string \<Rightarrow> bool) \<Rightarrow> (py_value \<Rightarrow> string) \<Rightarrow> string \<Rightarrow> py_value \<Rightarrow> string option
     \<Rightarrow> py_error + flowable list" where
  "create_bullet_section accepts repr heading items intro =
     (case mk_paragraph accepts heading SectionHeader of
        Inl e \<Rightarrow> Inl e
      | Inr ph \<Rightarrow>
          (case (case intro of
                   None \<Rightarrow> Inr []
                 | Some i \<Rightarrow>
                     if i \<noteq> [] then
                       (case mk_paragraph accepts i Normal of
                          Inl e \<Rightarrow> Inl e
                        | Inr p \<Rightarrow> Inr [p, Spacer 1 12])
                     else Inr []) of
             Inl e \<Rightarrow> Inl e
           | Inr intro_elements \<Rightarrow>
               (let elements = [ph] @ intro_elements
                in if truthy items then
                     (case py_iter items of
                        Inl e \<Rightarrow> Inl e
                      | Inr xs \<Rightarrow>
                          (case bullet_paragraphs accepts repr xs of
                             Inl e \<Rightarrow> Inl e
                           | Inr ps \<Rightarrow> Inr (elements @ ps @ [Spacer 1 20])))
                   else Inr (elements @ [Paragraph ''No items identified.'' Normal]
                             @ [Spacer 1 20]))))"

text \<open>The loop over the timeline: \<open>item.get\<close> exists on a dict only.\<close>

fun timeline_rows :: "py_value list \<Rightarrow> py_error + py_value list list" where
  "timeline_rows [] = Inr []"
| "timeline_rows (item # items) =
     (case item of
        PyDict d \<Rightarrow>
          (let event = dict_get d ''event'' (PyStr ''Unknown Event'');
               date = dict_get d ''date'' (PyStr ''TBD'')
           in case timeline_rows items of
                Inl e \<Rightarrow> Inl e
              | Inr rows \<Rightarrow> Inr ([event, date] # rows))
      | _ \<Rightarrow> Inl AttributeError)"

text \<open>The row the specification gives an entry of the timeline: the value of each field,
  or the substitute when the entry lacks the field.\<close>

fun entry_row :: "py_value \<Rightarrow> py_value list" where
  "entry_row (PyDict d) =
     [case map_of d ''event'' of Some v \<Rightarrow> v | None \<Rightarrow> PyStr ''Unknown Event'',
      case map_of d ''date'' of Some v \<Rightarrow> v | None \<Rightarrow> PyStr ''TBD'']"
| "entry_row v = []"

definition create_timeline_section :: "py_value \<Rightarrow> py_error + flowable list" where
  "create_timeline_section timeline =
     (let elements = [Paragraph ''Timeline & Key Dates'' SectionHeader,
                      Paragraph ''Important milestones and deadlines:'' Normal,
                      Spacer 1 12]
      in if truthy timeline then
           (case py_len timeline of
              Inl e \<Rightarrow> Inl e
            | Inr n \<Rightarrow>
                if n > 0 then
                  (case py_iter timeline of
                     Inl e \<Rightarrow> Inl e
                   | Inr items \<Rightarrow>
                       (case timeline_rows items of
                          Inl e \<Rightarrow> Inl e
                        | Inr rows \<Rightarrow>
                            Inr (elements
                                 @ [Table ([PyStr ''Event'', PyStr ''Date''] # rows)
                                      [4 * inch, 2 * inch]]
                                 @ [Spacer 1 20])))
                else Inr (elements
                          @ [Paragraph ''No timeline information available.'' Normal]
                          @ [Spacer 1 20]))
         else Inr (elements
                   @ [Paragraph ''No timeline information available.'' Normal]
                   @ [Spacer 1 20]))"

text \<open>
  \<open>generate_analysis_pdf\<close>. \<open>now\<close> is the formatted time of the call. The story is built
  in order and the first error ends the call; then \<open>doc.build(story)\<close> lays the story out
  and writes the file: it belongs to the library and is the parameter \<open>build\<close>, from the
  document (page size, margins, story) to the bytes written or the error raised. The two
  spacers of the title page have the heights \<open>1.5 * inch\<close> and \<open>0.3 * inch\<close> of the
  source, products of floating-point numbers: the first is 108, the second is the
  floating-point number 21.599999999999998, written here as the fraction it is.
\<close>

definition title_page :: "(string \<Rightarrow> bool) \<Rightarrow> string \<Rightarrow> string \<Rightarrow> py_error + flowable list" where
  "title_page accepts now rfp_filename =
     (case mk_paragraph accepts (''Source: '' @ rfp_filename) Metadata of
        Inl e \<Rightarrow> Inl e
      | Inr p_source \<Rightarrow>
          (case mk_paragraph accepts (''Generated: '' @ now) Metadata of
             Inl e \<Rightarrow> Inl e
           | Inr p_generated \<Rightarrow>
               Inr [Spacer 1 108,
                    Paragraph ''RFP Analysis Report'' CustomTitle,
                    Spacer 1 (6079859496950169 / 281474976710656),
                    p_source,
                    p_generated,
                    PageBreak]))"

definition generate_analysis_pdf ::
  "(string \<Rightarrow> bool) \<Rightarrow> (document \<Rightarrow> py_error + 'pdf) \<Rightarrow> (py_value \<Rightarrow> string) \<Rightarrow> string
     \<Rightarrow> py_value dict \<Rightarrow> string \<Rightarrow> py_error + 'pdf" where
  "generate_analysis_pdf accepts build repr now analysis rfp_filename =
     (case title_page accepts now rfp_filename of
        Inl e \<Rightarrow> Inl e
      | Inr s0 \<Rightarrow>
     (case create_bullet_section accepts repr ''Client Problems & Challenges''
             (dict_get analysis ''client_problems'' (PyList []))
             (Some ''Key issues and challenges the client is trying to resolve:'') of
        Inl e \<Rightarrow> Inl e
      | Inr s1 \<Rightarrow>
     (case create_bullet_section accepts repr ''Specific Requirements''
             (dict_get analysis ''requirements'' (PyList []))
             (Some ''Must-have requirements, deliverables, and constraints:'') of
        Inl e \<Rightarrow> Inl e
      | Inr s2 \<Rightarrow>
     (case create_bullet_section accepts repr ''Gotchas & Ambiguities''
             (dict_get analysis ''gotchas'' (PyList []))
             (Some ''Red-flag items that need clarification:'') of
        Inl e \<Rightarrow> Inl e
      | Inr s3 \<Rightarrow>
     (case create_timeline_section (dict_get analysis ''timeline'' (PyList [])) of
        Inl e \<Rightarrow> Inl e
      | Inr s4 \<Rightarrow>
          build \<lparr>pagesize = (612, 792), margins = (72, 72, 72, 72),
                 story = s0 @ s1 @ s2 @ s3 @ s4\<rparr>)))))"

text \<open>An entry of the timeline as the data model has it: a record.\<close>

fun is_record :: "py_value \<Rightarrow> bool" where
  "is_record (PyDict d) = True"
| "is_record v = False"

text \<open>A verdict on markup for concrete texts: a text without \<open><\<close> holds no tag and is
  accepted; a text with one is refused, as the library refuses an unclosed tag.\<close>

definition plain_markup :: "string \<Rightarrow> bool" where
  "plain_markup t = (CHR ''<'' \<notin> set t)"

section \<open>The workbook renderer (\<open>RFPExcelGenerator\<close>)\<close>











text \<open>
  Assigning a value to a cell, \<open>ws[ref] = v\<close>. The library reaches the cell first and
  raises \<open>ValueError\<close> when the row number is not between 1 and 1048576 (in every row
  the source writes, the first statement is an assignment, so the later accesses of the
  row find the cell). An integer is stored as it is. A text goes through the library's
  check of strings first: it is cut at 32767 characters, and \<open>IllegalCharacterError\<close> is
  raised when what is left holds a control character other than tab, line feed and
  carriage return (the code points 0 to 8, 11, 12 and 14 to 31).
\<close>

definition illegal_char :: "char \<Rightarrow> bool" where
  "illegal_char c =
     (let n = of_char c :: nat in n \<le> 8 \<or> n = 11 \<or> n = 12 \<or> (14 \<le> n \<and> n \<le> 31))"

definition check_string :: "string \<Rightarrow> py_error + string" where
  "check_string v =
     (let v = take 32767 v
      in if list_ex illegal_char v then Inl (IllegalCharacterError v) else Inr v)"






















text \<open>A text the check of strings lets through.\<close>

definition legal_text :: "string \<Rightarrow> bool" where
  "legal_text s = (\<not> list_ex illegal_char (take 32767 s))"

section \<open>Properties of structural validation\<close>

lemma dict_contains_iff: "dict_contains k d = (k \<in> fst ` set d)"
  by (simp add: dict_contains_def map_of_eq_None_iff)

lemma missing_fields_of:
  "missing_fields d = missing_of (dict_contains ''client_problems'' d) (dict_contains ''requirements'' d)
     (dict_contains ''gotchas'' d) (dict_contains ''timeline'' d) (dict_contains ''next_steps'' d)
     (dict_contains ''alignment_questions'' d)"
  by (simp add: missing_fields_def required_fields_def missing_of_def)

lemma named_of:
  "\<forall>b1 b2 b3 b4 b5 b6.
     map (\<lambda>f. py_in f (''Analysis missing required fields: ''
                        @ py_join '', '' (missing_of b1 b2 b3 b4 b5 b6))) required_fields
     = [\<not> b1, \<not> b2, \<not> b3, \<not> b4, \<not> b5, \<not> b6]"
  by code_simp

lemma message_names_missing:
  "f \<in> set required_fields \<Longrightarrow>
   py_in f (''Analysis missing required fields: '' @ py_join '', '' (missing_fields d))
     = (\<not> dict_contains f d)"
  using named_of [rule_format, of "dict_contains ''client_problems'' d"
      "dict_contains ''requirements'' d" "dict_contains ''gotchas'' d"
      "dict_contains ''timeline'' d" "dict_contains ''next_steps'' d"
      "dict_contains ''alignment_questions'' d"]
  unfolding missing_fields_of [symmetric]
  by (auto simp: required_fields_def)

lemma set_missing_fields:
  "set (missing_fields d) = set required_fields - fst ` set d"
  by (auto simp: missing_fields_def dict_contains_iff)

lemma dict_contains_apsnd: "dict_contains k (map (apsnd g) d) = dict_contains k d"
  by (simp add: dict_contains_iff image_image)

lemma missing_fields_apsnd: "missing_fields (map (apsnd g) d) = missing_fields d"
  by (simp add: missing_fields_def dict_contains_apsnd)

text \<open>
  C3. Structural validation succeeds exactly when the six keys \<open>client_problems\<close>,
  \<open>requirements\<close>, \<open>gotchas\<close>, \<open>timeline\<close>, \<open>next_steps\<close> and \<open>alignment_questions\<close>
  are all present. When one is absent, it raises the exception whose message is the fixed
  prefix followed by the absent ones of the six keys, in this order, joined with a comma;
  each of the six keys occurs in that message if and only if it is absent from the dict.
  The values stored under the keys are never inspected: replacing every value by any other
  leaves the outcome unchanged.
\<close>

theorem validate_analysis_structure_keys:
  "((validate_analysis_structure analysis = Inr True)
      = (''client_problems'' \<in> fst ` set analysis
         \<and> ''requirements'' \<in> fst ` set analysis
         \<and> ''gotchas'' \<in> fst ` set analysis
         \<and> ''timeline'' \<in> fst ` set analysis
         \<and> ''next_steps'' \<in> fst ` set analysis
         \<and> ''alignment_questions'' \<in> fst ` set analysis))
   \<and> (validate_analysis_structure analysis \<noteq> Inr True \<longrightarrow>
        validate_analysis_structure analysis
          = Inl (Exception (''Analysis missing required fields: ''
                   @ py_join '', ''
                       (filter (\<lambda>f. f \<notin> fst ` set analysis)
                          [''client_problems'', ''requirements'', ''gotchas'', ''timeline'',
                           ''next_steps'', ''alignment_questions''])))
        \<and> (\<forall>f \<in> set [''client_problems'', ''requirements'', ''gotchas'', ''timeline'',
                        ''next_steps'', ''alignment_questions''].
              py_in f (''Analysis missing required fields: ''
                   @ py_join '', ''
                       (filter (\<lambda>f. f \<notin> fst ` set analysis)
                          [''client_problems'', ''requirements'', ''gotchas'', ''timeline'',
                           ''next_steps'', ''alignment_questions'']))
              = (f \<notin> fst ` set analysis)))
   \<and> validate_analysis_structure (map (apsnd g) analysis)
        = validate_analysis_structure analysis"
proof -
  have mf: "missing_fields analysis
      = filter (\<lambda>f. f \<notin> fst ` set analysis)
          [''client_problems'', ''requirements'', ''gotchas'', ''timeline'',
           ''next_steps'', ''alignment_questions'']"
    unfolding missing_fields_def required_fields_def dict_contains_iff ..
  have rf: "set [''client_problems'', ''requirements'', ''gotchas'', ''timeline'',
                 ''next_steps'', ''alignment_questions''] = set required_fields"
    unfolding required_fields_def ..
  have empty_iff: "(missing_fields analysis = [])
      = (''client_problems'' \<in> fst ` set analysis
         \<and> ''requirements'' \<in> fst ` set analysis
         \<and> ''gotchas'' \<in> fst ` set analysis
         \<and> ''timeline'' \<in> fst ` set analysis
         \<and> ''next_steps'' \<in> fst ` set analysis
         \<and> ''alignment_questions'' \<in> fst ` set analysis)"
    unfolding mf filter_empty_conv by simp
  have a: "(validate_analysis_structure analysis = Inr True)
      = (''client_problems'' \<in> fst ` set analysis
         \<and> ''requirements'' \<in> fst ` set analysis
         \<and> ''gotchas'' \<in> fst ` set analysis
         \<and> ''timeline'' \<in> fst ` set analysis
         \<and> ''next_steps'' \<in> fst ` set analysis
         \<and> ''alignment_questions'' \<in> fst ` set analysis)"
    unfolding empty_iff [symmetric] by (simp add: validate_analysis_structure_def)
  have b: "validate_analysis_structure analysis
          = Inl (Exception (''Analysis missing required fields: ''
                   @ py_join '', ''
                       (filter (\<lambda>f. f \<notin> fst ` set analysis)
                          [''client_problems'', ''requirements'', ''gotchas'', ''timeline'',
                           ''next_steps'', ''alignment_questions''])))"
    if "validate_analysis_structure analysis \<noteq> Inr True"
    using that unfolding mf [symmetric]
    by (simp add: validate_analysis_structure_def split: if_splits)
  have c: "\<forall>f \<in> set [''client_problems'', ''requirements'', ''gotchas'', ''timeline'',
                        ''next_steps'', ''alignment_questions''].
              py_in f (''Analysis missing required fields: ''
                   @ py_join '', ''
                       (filter (\<lambda>f. f \<notin> fst ` set analysis)
                          [''client_problems'', ''requirements'', ''gotchas'', ''timeline'',
                           ''next_steps'', ''alignment_questions'']))
              = (f \<notin> fst ` set analysis)"
    unfolding mf [symmetric] rf
  proof
    fix f assume "f \<in> set required_fields"
    from message_names_missing [OF this, of analysis] show
      "py_in f (''Analysis missing required fields: ''
                   @ py_join '', '' (missing_fields analysis))
              = (f \<notin> fst ` set analysis)"
      unfolding dict_contains_iff .
  qed
  have d: "validate_analysis_structure (map (apsnd g) analysis)
        = validate_analysis_structure analysis"
    by (simp add: validate_analysis_structure_def missing_fields_apsnd)
  show ?thesis using a b c d by blast
qed

theorem validate_analysis_structure_keys_witness:
  "validate_analysis_structure
      [(''client_problems'', PyList []), (''requirements'', PyList []), (''gotchas'', PyList []),
       (''timeline'', PyList []), (''next_steps'', PyList []), (''alignment_questions'', PyList [])]
     = Inr True
   \<and> validate_analysis_structure
      [(''requirements'', PyList []), (''gotchas'', PyList []),
       (''timeline'', PyList []), (''next_steps'', PyList []), (''alignment_questions'', PyList [])]
     = Inl (Exception ''Analysis missing required fields: client_problems'')
   \<and> validate_analysis_structure
      [(''client_problems'', PyList []), (''gotchas'', PyList []),
       (''timeline'', PyList []), (''next_steps'', PyList []), (''alignment_questions'', PyList [])]
     = Inl (Exception ''Analysis missing required fields: requirements'')
   \<and> validate_analysis_structure
      [(''client_problems'', PyList []), (''requirements'', PyList []),
       (''timeline'', PyList []), (''next_steps'', PyList []), (''alignment_questions'', PyList [])]
     = Inl (Exception ''Analysis missing required fields: gotchas'')
   \<and> validate_analysis_structure
      [(''client_problems'', PyList []), (''requirements'', PyList []), (''gotchas'', PyList []),
       (''next_steps'', PyList []), (''alignment_questions'', PyList [])]
     = Inl (Exception ''Analysis missing required fields: timeline'')
   \<and> validate_analysis_structure
      [(''client_problems'', PyList []), (''requirements'', PyList []), (''gotchas'', PyList []),
       (''timeline'', PyList []), (''alignment_questions'', PyList [])]
     = Inl (Exception ''Analysis missing required fields: next_steps'')
   \<and> validate_analysis_structure
      [(''client_problems'', PyList []), (''requirements'', PyList []), (''gotchas'', PyList []),
       (''timeline'', PyList []), (''next_steps'', PyList [])]
     = Inl (Exception ''Analysis missing required fields: alignment_questions'')
   \<and> validate_analysis_structure ([] :: py_value dict)
     = Inl (Exception ''Analysis missing required fields: client_problems, requirements, gotchas, timeline, next_steps, alignment_questions'')
   \<and> validate_analysis_structure
      [(''client_problems'', PyList []), (''gotchas'', PyInt 3), (''next_steps'', PyNone),
       (''alignment_questions'', PyList [])]
     = Inl (Exception ''Analysis missing required fields: requirements, timeline'')"
  using validate_analysis_structure_keys [of
      "[(''client_problems'', PyList []), (''gotchas'', PyInt 3), (''next_steps'', PyNone),
       (''alignment_questions'', PyList [])]" id]
  by (simp add: validate_analysis_structure_def required_fields_def missing_fields_def
      dict_contains_def)

section \<open>Properties of the string primitives\<close>

lemma find_at_first:
  "(\<And>j. j < length x \<Longrightarrow> \<not> prefix sub (drop j (x @ sub @ y)))
   \<Longrightarrow> find_at sub (x @ sub @ y) i = Some (i + length x)"
proof (induction x arbitrary: i)
  case Nil
  show ?case
  proof (cases "sub @ y")
    case Nil
    then show ?thesis by simp
  next
    case (Cons a l)
    have "prefix sub (sub @ y)" by simp
    then have "prefix sub (a # l)" unfolding Cons .
    then have "find_at sub (a # l) i = Some i" by simp
    then show ?thesis unfolding Cons [symmetric] by simp
  qed
next
  case (Cons a x)
  have "\<not> prefix sub ((a # x) @ sub @ y)" using Cons.prems [of 0] by simp
  moreover have "find_at sub (x @ sub @ y) (Suc i) = Some (Suc i + length x)"
  proof (rule Cons.IH)
    fix j assume "j < length x"
    then show "\<not> prefix sub (drop j (x @ sub @ y))" using Cons.prems [of "Suc j"] by simp
  qed
  ultimately show ?case by simp
qed

lemma find_at_None:
  "(\<And>j. j \<le> length s \<Longrightarrow> \<not> prefix sub (drop j s)) \<Longrightarrow> find_at sub s i = None"
proof (induction s arbitrary: i)
  case Nil
  then show ?case using Nil [of 0] by auto
next
  case (Cons a s)
  have "\<not> prefix sub (a # s)" using Cons.prems [of 0] by simp
  moreover have "find_at sub s (Suc i) = None"
  proof (rule Cons.IH)
    fix j assume "j \<le> length s"
    then show "\<not> prefix sub (drop j s)" using Cons.prems [of "Suc j"] by simp
  qed
  ultimately show ?case by simp
qed

lemma find_at_Some_occ:
  "find_at sub s i = Some k \<Longrightarrow> \<exists>j \<le> length s. prefix sub (drop j s)"
proof (induction s arbitrary: i)
  case Nil
  then show ?case by (auto split: if_splits)
next
  case (Cons a s)
  show ?case
  proof (cases "prefix sub (a # s)")
    case True
    then show ?thesis by (intro exI [of _ 0]) simp
  next
    case False
    with Cons.prems have "find_at sub s (Suc i) = Some k" by simp
    from Cons.IH [OF this] obtain j where "j \<le> length s" "prefix sub (drop j s)" by blast
    then show ?thesis by (intro exI [of _ "Suc j"]) simp
  qed
qed

lemma find_at_None_D:
  "find_at sub s i = None \<Longrightarrow> j \<le> length s \<Longrightarrow> \<not> prefix sub (drop j s)"
proof (induction s arbitrary: i j)
  case Nil
  then show ?case by (auto split: if_splits)
next
  case (Cons a s)
  from Cons.prems(1) have np: "\<not> prefix sub (a # s)" and rec: "find_at sub s (Suc i) = None"
    by (auto split: if_splits)
  show ?case
  proof (cases j)
    case 0
    then show ?thesis using np by simp
  next
    case (Suc j')
    then show ?thesis using Cons.IH [OF rec, of j'] Cons.prems(2) by simp
  qed
qed

lemma py_in_iff: "py_in sub s = (\<exists>j \<le> length s. prefix sub (drop j s))"
proof
  assume "py_in sub s"
  then obtain k where "find_at sub s 0 = Some k" by (auto simp: py_in_def)
  then show "\<exists>j \<le> length s. prefix sub (drop j s)" by (rule find_at_Some_occ)
next
  assume "\<exists>j \<le> length s. prefix sub (drop j s)"
  then show "py_in sub s"
    unfolding py_in_def using find_at_None_D [of sub s 0] by blast
qed

lemma py_in_sublist: "py_in sub s = sublist sub s"
proof -
  have "(\<exists>j \<le> length s. prefix sub (drop j s)) = sublist sub s"
  proof
    assume "\<exists>j \<le> length s. prefix sub (drop j s)"
    then obtain j zs where "drop j s = sub @ zs" by (auto simp: prefix_def)
    then have "s = take j s @ sub @ zs" by (metis append_take_drop_id)
    then show "sublist sub s" unfolding sublist_def by blast
  next
    assume "sublist sub s"
    then obtain ps ss where s: "s = ps @ sub @ ss" unfolding sublist_def by blast
    then have "prefix sub (drop (length ps) s)" by simp
    moreover have "length ps \<le> length s" using s by simp
    ultimately show "\<exists>j \<le> length s. prefix sub (drop j s)" by blast
  qed
  then show ?thesis by (simp add: py_in_iff)
qed

lemma find_at_char_first:
  "c \<notin> set x \<Longrightarrow> find_at [c] (x @ c # y) i = Some (i + length x)"
  by (induction x arbitrary: i) auto

lemma find_at_char_None: "c \<notin> set s \<Longrightarrow> find_at [c] s i = None"
  by (induction s arbitrary: i) auto

lemma rfind_at_char_None: "c \<notin> set s \<Longrightarrow> rfind_at [c] s i = None"
  by (induction s arbitrary: i) auto

lemma rfind_at_char_last:
  "c \<notin> set y \<Longrightarrow> rfind_at [c] (x @ c # y) i = Some (i + length x)"
  by (induction x arbitrary: i) (auto simp: rfind_at_char_None)

lemma py_slice_mid:
  "py_slice (pre @ body @ rest) (int (length pre)) (int (length pre + length body)) = body"
  by (simp add: py_slice_def slice_index_def Let_def)

lemma py_strip_ws:
  assumes "\<forall>c \<in> set w1. py_isspace c" "\<forall>c \<in> set w2. py_isspace c"
    and "s \<noteq> []" "\<not> py_isspace (hd s)" "\<not> py_isspace (last s)"
  shows "py_strip (w1 @ s @ w2) = s"
proof -
  have a: "dropWhile py_isspace (w1 @ s @ w2) = s @ w2"
    using assms(1,3,4) by (cases s) (auto simp: dropWhile_append)
  have b: "dropWhile py_isspace (rev w2 @ rev s) = rev s"
    using assms(2,3,5) by (cases s rule: rev_cases) (auto simp: dropWhile_append)
  show ?thesis by (simp add: py_strip_def a b)
qed

section \<open>Properties of response recovery\<close>

lemma parse_json_response_chosen:
  "parse_json_response dec text =
     (case dec text of
        Some v \<Rightarrow> Inr v
      | None \<Rightarrow>
          (case first_applicable text of
             Some s \<Rightarrow> loads dec s
           | None \<Rightarrow> Inl (JSONDecodeError
                       (Some (''Could not find valid JSON in response'', 0)) text)))"
  by (simp add: parse_json_response_def loads_def first_applicable_def
      tagged_fence_candidate_def fence_candidate_def braces_candidate_def Let_def
      split: option.splits)

lemma recover_in_order_unfold:
  "recover_in_order dec text =
     (case dec text of
        Some v \<Rightarrow> Some v
      | None \<Rightarrow>
          (case Option.bind (tagged_fence_candidate text) dec of
             Some v \<Rightarrow> Some v
           | None \<Rightarrow>
               (case Option.bind (fence_candidate text) dec of
                  Some v \<Rightarrow> Some v
                | None \<Rightarrow> Option.bind (braces_candidate text) dec)))"
  by (simp add: recover_in_order_def strategy_whole_def strategy_tagged_fence_def
      strategy_fence_def strategy_braces_def split: option.splits)

lemma parse_success_in_order:
  "parse_json_response dec text = Inr v \<Longrightarrow> recover_in_order dec text = Some v"
  unfolding parse_json_response_chosen recover_in_order_unfold first_applicable_def
  by (auto simp: loads_def split: option.splits)

text \<open>
  C1 (as the code has it). The whole reply is decoded first, and a failure of that decoding
  is caught. After it, the code does not try the remaining strategies in turn: it chooses
  the first of them that applies to the reply (a \<open>```json\<close> tag is present; else a fence is
  present; else a \<open>{\<close> stands before the last \<open>}\<close>) and the outcome of decoding that
  strategy's substring is the outcome of the operation, a decoding error included. When
  none applies, it raises the structured failure with the original reply. Whenever the
  operation returns a value, trying the four strategies in order returns the same value.
\<close>

theorem parse_json_response_first_applicable:
  "parse_json_response dec text =
     (case strategy_whole dec text of
        Some v \<Rightarrow> Inr v
      | None \<Rightarrow>
          (case first_applicable text of
             Some s \<Rightarrow> loads dec s
           | None \<Rightarrow> Inl (JSONDecodeError
                       (Some (''Could not find valid JSON in response'', 0)) text)))
   \<and> (\<forall>v. parse_json_response dec text = Inr v \<longrightarrow> recover_in_order dec text = Some v)"
  using parse_json_response_chosen [of dec] parse_success_in_order [of dec]
  by (simp add: strategy_whole_def)

theorem parse_json_response_first_applicable_witness:
  "parse_json_response json_decode ''```json {} ``` and ``` [1] ```'' = Inr (PyDict [])
   \<and> first_applicable ''```json {} ``` and ``` [1] ```'' = Some ''{}''
   \<and> recover_in_order json_decode ''```json {} ``` and ``` [1] ```'' = Some (PyDict [])"
proof -
  have e: "parse_json_response json_decode ''```json {} ``` and ``` [1] ```'' = Inr (PyDict [])
     \<and> first_applicable ''```json {} ``` and ``` [1] ```'' = Some ''{}''"
    by code_simp
  with parse_json_response_first_applicable
         [of json_decode "''```json {} ``` and ``` [1] ```''"]
  have "recover_in_order json_decode ''```json {} ``` and ``` [1] ```'' = Some (PyDict [])"
    by blast
  with e show ?thesis by blast
qed

text \<open>
  C1 as stated fails: in the reply below the tagged fence applies and its content does not
  decode; the braces strategy would decode \<open>{}\<close>, and trying the strategies in order
  returns it, but the operation raises the decoding error of the fenced content.
\<close>

theorem parse_json_response_not_in_order:
  "parse_json_response json_decode ''```json oops``` {}'' = Inl (JSONDecodeError None ''oops'')
   \<and> tagged_fence_candidate ''```json oops``` {}'' = Some ''oops''
   \<and> strategy_tagged_fence json_decode ''```json oops``` {}'' = None
   \<and> strategy_braces json_decode ''```json oops``` {}'' = Some (PyDict [])
   \<and> recover_in_order json_decode ''```json oops``` {}'' = Some (PyDict [])"
  by code_simp

lemma not_prefix_hd:
  assumes "sub \<noteq> []" "j < length x" "x ! j \<noteq> hd sub"
  shows "\<not> prefix sub (drop j (x @ z))"
proof
  assume p: "prefix sub (drop j (x @ z))"
  have "j < length (x @ z)" using assms(2) by simp
  then have "drop j (x @ z) = (x @ z) ! j # drop (Suc j) (x @ z)"
    by (rule Cons_nth_drop_Suc [symmetric])
  moreover have "(x @ z) ! j = x ! j" using assms(2) by (simp add: nth_append)
  ultimately have e: "drop j (x @ z) = x ! j # drop (Suc j) (x @ z)" by simp
  from assms(1) obtain h t where sub: "sub = h # t" by (cases sub) auto
  from p have "h = x ! j" unfolding e sub by simp
  with assms(3) sub show False by simp
qed

lemma find_at_after_clean:
  assumes "sub \<noteq> []" "hd sub \<notin> set x"
  shows "find_at sub (x @ sub @ y) i = Some (i + length x)"
proof (rule find_at_first)
  fix j assume j: "j < length x"
  then have "x ! j \<in> set x" by simp
  with assms(2) have "x ! j \<noteq> hd sub" by metis
  with assms(1) j show "\<not> prefix sub (drop j (x @ sub @ y))" by (rule not_prefix_hd)
qed

lemma sublist_clean_left:
  "sub \<noteq> [] \<Longrightarrow> hd sub \<notin> set w \<Longrightarrow> sublist sub (w @ t) = sublist sub t"
proof (induction w)
  case Nil
  then show ?case by simp
next
  case (Cons a w)
  then have "\<not> prefix sub (a # w @ t)" by (cases sub) auto
  with Cons show ?case by (simp add: sublist_Cons_right)
qed

lemma sublist_clean_right:
  assumes "sub \<noteq> []" "last sub \<notin> set w"
  shows "sublist sub (t @ w) = sublist sub t"
proof -
  have "hd (rev sub) \<notin> set (rev w)" using assms by (simp add: hd_rev)
  moreover have "rev sub \<noteq> []" using assms by simp
  ultimately have "sublist (rev sub) (rev w @ rev t) = sublist (rev sub) (rev t)"
    by (rule sublist_clean_left [rotated])
  then have "sublist (rev sub) (rev (t @ w)) = sublist (rev sub) (rev t)" by simp
  then show ?thesis unfolding sublist_rev .
qed

lemma fence_in_tagged:
  assumes "py_in ''```json'' t"
  shows "py_in ''```'' t"
proof -
  from assms obtain ps ss where "t = ps @ ''```json'' @ ss"
    unfolding py_in_sublist sublist_def by blast
  then have "t = ps @ ''```'' @ (''json'' @ ss)" by simp
  then show ?thesis unfolding py_in_sublist sublist_def by blast
qed

lemma backtick_not_space: "py_isspace c \<Longrightarrow> c \<noteq> CHR 0x60"
proof
  assume "py_isspace c" "c = CHR 0x60"
  then have "py_isspace (CHR 0x60)" by simp
  then show False by (simp add: py_isspace_def)
qed

lemma no_fence_before_end:
  assumes nf: "\<not> py_in ''```'' body" and l: "body = [] \<or> last body \<noteq> CHR 0x60"
    and j: "j < length body"
  shows "\<not> prefix ''```'' (drop j (body @ r))"
proof
  assume p: "prefix ''```'' (drop j (body @ r))"
  define d where "d = drop j body"
  have dn: "d \<noteq> []" and ld: "last d = last body" using j by (auto simp: d_def)
  have pd: "prefix ''```'' (d @ r)" using p j by (simp add: d_def)
  have np: "\<not> prefix ''```'' d"
    using nf j unfolding py_in_iff d_def by (metis less_imp_le)
  from dn obtain a d1 where d: "d = a # d1" by (cases d) auto
  have a: "a = CHR 0x60" using pd unfolding d by auto
  show False
  proof (cases d1)
    case Nil
    have "last body = CHR 0x60" using ld a unfolding d Nil by simp
    with l j show False by auto
  next
    case d1: (Cons b d2)
    have b: "b = CHR 0x60" using pd unfolding d d1 by auto
    show False
    proof (cases d2)
      case Nil
      have "last body = CHR 0x60" using ld b unfolding d d1 Nil by simp
      with l j show False by auto
    next
      case d2: (Cons c d3)
      have "c = CHR 0x60" using pd unfolding d d1 d2 by auto
      with a b have "prefix ''```'' d" unfolding d d1 d2 by simp
      with np show False by simp
    qed
  qed
qed

lemma body_clean:
  assumes ws: "\<forall>c \<in> set w1. py_isspace c" "\<forall>c \<in> set w2. py_isspace c"
    and s: "s \<noteq> []" "last s = CHR ''}''" and nf: "\<not> py_in ''```'' s"
  shows "\<not> py_in ''```'' (w1 @ s @ w2)"
    and "w1 @ s @ w2 = [] \<or> last (w1 @ s @ w2) \<noteq> CHR 0x60"
proof -
  have q1: "CHR 0x60 \<notin> set w1" and q2: "CHR 0x60 \<notin> set w2"
    using ws backtick_not_space by blast+
  have "sublist ''```'' (w1 @ s @ w2) = sublist ''```'' (s @ w2)"
    using q1 by (intro sublist_clean_left) auto
  also have "\<dots> = sublist ''```'' s"
    using q2 by (intro sublist_clean_right) auto
  finally show "\<not> py_in ''```'' (w1 @ s @ w2)" using nf by (simp add: py_in_sublist)
  show "w1 @ s @ w2 = [] \<or> last (w1 @ s @ w2) \<noteq> CHR 0x60"
  proof (cases "w2 = []")
    case True
    then show ?thesis using s by simp
  next
    case False
    then have "last w2 \<in> set w2" by simp
    with q2 have "last w2 \<noteq> CHR 0x60" by metis
    with False show ?thesis by simp
  qed
qed

lemma brace_not_space: "\<not> py_isspace (CHR ''{'')" "\<not> py_isspace (CHR ''}'')"
  by (simp_all add: py_isspace_def Let_def)

lemma fenced_extract:
  assumes tag: "tag \<noteq> []" "hd tag \<notin> set pre"
    and body: "\<not> py_in ''```'' body" "body = [] \<or> last body \<noteq> CHR 0x60"
  shows "py_find (pre @ tag @ body @ ''```'' @ post) tag 0 = int (length pre)"
    and "py_find (pre @ tag @ body @ ''```'' @ post) ''```'' (length pre + length tag)
           = int (length pre + length tag + length body)"
    and "py_slice (pre @ tag @ body @ ''```'' @ post) (int (length pre + length tag))
           (int (length pre + length tag + length body)) = body"
proof -
  have "find_at tag (pre @ tag @ body @ ''```'' @ post) 0 = Some (0 + length pre)"
    using tag by (rule find_at_after_clean)
  then show "py_find (pre @ tag @ body @ ''```'' @ post) tag 0 = int (length pre)"
    by (simp add: py_find_def)
  have "find_at ''```'' (body @ ''```'' @ post) (length pre + length tag)
          = Some (length pre + length tag + length body)"
    by (rule find_at_first) (rule no_fence_before_end [OF body])
  moreover have "drop (length pre + length tag) (pre @ tag @ body @ ''```'' @ post)
          = body @ ''```'' @ post"
    by simp
  ultimately show "py_find (pre @ tag @ body @ ''```'' @ post) ''```'' (length pre + length tag)
           = int (length pre + length tag + length body)"
    unfolding py_find_def by simp
  show "py_slice (pre @ tag @ body @ ''```'' @ post) (int (length pre + length tag))
           (int (length pre + length tag + length body)) = body"
    using py_slice_mid [of "pre @ tag" body "''```'' @ post"] by simp
qed

lemma tagged_fence_candidate_layout:
  assumes "CHR 0x60 \<notin> set pre"
    and "\<not> py_in ''```'' body" "body = [] \<or> last body \<noteq> CHR 0x60"
  shows "tagged_fence_candidate (pre @ ''```json'' @ body @ ''```'' @ post) = Some (py_strip body)"
proof -
  have t: "''```json'' \<noteq> []" "hd ''```json'' \<notin> set pre" using assms(1) by simp_all
  note fe = fenced_extract [OF t assms(2,3), of post]
  have i: "py_in ''```json'' (pre @ ''```json'' @ body @ ''```'' @ post)"
    unfolding py_in_sublist by (rule sublist_appendI)
  have n: "nat (int (length pre) + 7) = length pre + length ''```json''" by simp
  have m: "int (length pre) + 7 = int (length pre + length ''```json'')" by simp
  show ?thesis
    unfolding tagged_fence_candidate_def Let_def if_P [OF i] fe(1) n
    unfolding m fe(2) fe(3) ..
qed

lemma fence_candidate_layout:
  assumes "CHR 0x60 \<notin> set pre"
    and "\<not> py_in ''```'' body" "body = [] \<or> last body \<noteq> CHR 0x60"
  shows "fence_candidate (pre @ ''```'' @ body @ ''```'' @ post) = Some (py_strip body)"
proof -
  have t: "''```'' \<noteq> []" "hd ''```'' \<notin> set pre" using assms(1) by simp_all
  note fe = fenced_extract [OF t assms(2,3), of post]
  have i: "py_in ''```'' (pre @ ''```'' @ body @ ''```'' @ post)"
    unfolding py_in_sublist by (rule sublist_appendI)
  have n: "nat (int (length pre) + 3) = length pre + length ''```''" by simp
  have m: "int (length pre) + 3 = int (length pre + length ''```'')" by simp
  show ?thesis
    unfolding fence_candidate_def Let_def if_P [OF i] fe(1) n
    unfolding m fe(2) fe(3) ..
qed

lemma braces_candidate_layout:
  assumes s: "s \<noteq> []" "hd s = CHR ''{''" "last s = CHR ''}''"
    and pre: "CHR ''{'' \<notin> set pre" and post: "CHR ''}'' \<notin> set post"
  shows "braces_candidate (pre @ s @ post) = Some s"
proof -
  have s1: "s = CHR ''{'' # tl s" using s(1,2) by (cases s) auto
  have s2: "s = butlast s @ [CHR ''}'']" using s(1,3) by (metis append_butlast_last_id)
  have e1: "pre @ s @ post = pre @ CHR ''{'' # (tl s @ post)"
    using s1 by (metis append_Cons)
  have "find_at ''{'' (pre @ s @ post) 0 = Some (0 + length pre)"
    unfolding e1 by (rule find_at_char_first [OF pre])
  then have f: "py_find (pre @ s @ post) ''{'' 0 = int (length pre)"
    by (simp add: py_find_def)
  have e2: "pre @ s @ post = (pre @ butlast s) @ CHR ''}'' # post"
    using s2 by (metis append_Cons append_Nil append_assoc)
  have "rfind_at ''}'' (pre @ s @ post) 0 = Some (0 + length (pre @ butlast s))"
    unfolding e2 by (rule rfind_at_char_last [OF post])
  moreover have "length s - Suc 0 + 1 = length s" using s(1) by (cases s) auto
  ultimately have r: "py_rfind (pre @ s @ post) ''}'' + 1 = int (length pre + length s)"
    by (simp add: py_rfind_def)
  have sl: "py_slice (pre @ s @ post) (int (length pre)) (int (length pre + length s)) = s"
    by (rule py_slice_mid)
  have g: "int (length pre) \<noteq> - 1 \<and> int (length pre + length s) > int (length pre)"
    using s(1) by simp
  show ?thesis
    unfolding braces_candidate_def Let_def f r sl if_P [OF g] ..
qed

lemma braces_candidate_none:
  assumes "CHR ''{'' \<notin> set t"
  shows "braces_candidate t = None"
proof -
  have "find_at ''{'' t 0 = None" using assms by (rule find_at_char_None)
  then have "py_find t ''{'' 0 = - 1" by (simp add: py_find_def)
  then show ?thesis by (simp add: braces_candidate_def Let_def)
qed

lemma candidates_no_fence:
  assumes "\<not> py_in ''```'' t"
  shows "tagged_fence_candidate t = None" "fence_candidate t = None"
  using assms fence_in_tagged [of t]
  by (auto simp: tagged_fence_candidate_def fence_candidate_def)

lemma parse_via_candidate:
  assumes "dec t = None \<or> dec t = Some J" "dec s = Some J" "first_applicable t = Some s"
  shows "parse_json_response dec t = Inr J"
  using assms unfolding parse_json_response_chosen by (auto simp: loads_def)

text \<open>
  C2 (as the code has it). Let \<open>s\<close> be a serialization of \<open>J\<close> (the decoder maps it to
  \<open>J\<close>) that starts with \<open>{\<close>, ends with \<open>}\<close> and holds no \<open>```\<close>. The operation returns
  \<open>J\<close> for (a) \<open>s\<close> alone; (b) \<open>s\<close>, with whitespace around it, inside a \<open>```json\<close>
  fence that follows backtick-free prose; (c) the same inside an untagged fence, when the
  reply holds no \<open>```json\<close> tag; (d) \<open>s\<close> between prose, when the reply holds no fence,
  no \<open>{\<close> before \<open>s\<close> and no \<open>}\<close> after it; in (b) to (d) provided the reply as a
  whole does not decode to another value. For a reply that holds no \<open>{\<close> and no fence and
  does not decode as a whole, the operation raises the structured failure that carries the
  original reply.
\<close>

theorem parse_json_response_layouts:
  assumes ser: "dec s = Some J"
    and obj: "s \<noteq> []" "hd s = CHR ''{''" "last s = CHR ''}''"
    and nof: "\<not> py_in ''```'' s"
    and ws: "\<forall>c \<in> set w1. py_isspace c" "\<forall>c \<in> set w2. py_isspace c"
    and pre: "CHR 0x60 \<notin> set pre"
  shows
    "parse_json_response dec s = Inr J
     \<and> (dec (pre @ ''```json'' @ w1 @ s @ w2 @ ''```'' @ post) = None
          \<or> dec (pre @ ''```json'' @ w1 @ s @ w2 @ ''```'' @ post) = Some J
        \<longrightarrow> parse_json_response dec (pre @ ''```json'' @ w1 @ s @ w2 @ ''```'' @ post) = Inr J)
     \<and> ((dec (pre @ ''```'' @ w1 @ s @ w2 @ ''```'' @ post) = None
          \<or> dec (pre @ ''```'' @ w1 @ s @ w2 @ ''```'' @ post) = Some J)
         \<and> \<not> py_in ''```json'' (pre @ ''```'' @ w1 @ s @ w2 @ ''```'' @ post)
        \<longrightarrow> parse_json_response dec (pre @ ''```'' @ w1 @ s @ w2 @ ''```'' @ post) = Inr J)
     \<and> ((dec (p1 @ s @ p2) = None \<or> dec (p1 @ s @ p2) = Some J)
         \<and> \<not> py_in ''```'' (p1 @ s @ p2) \<and> CHR ''{'' \<notin> set p1 \<and> CHR ''}'' \<notin> set p2
        \<longrightarrow> parse_json_response dec (p1 @ s @ p2) = Inr J)
     \<and> (dec t = None \<and> CHR ''{'' \<notin> set t \<and> \<not> py_in ''```'' t
        \<longrightarrow> parse_json_response dec t
              = Inl (JSONDecodeError (Some (''Could not find valid JSON in response'', 0)) t))"
proof -
  note bc = body_clean [OF ws obj(1,3) nof]
  have strip: "py_strip (w1 @ s @ w2) = s"
    using ws obj by (intro py_strip_ws) (simp_all add: brace_not_space)
  have a: "parse_json_response dec s = Inr J"
    using ser by (simp add: parse_json_response_def loads_def)
  have b: "parse_json_response dec (pre @ ''```json'' @ w1 @ s @ w2 @ ''```'' @ post) = Inr J"
    if d: "dec (pre @ ''```json'' @ w1 @ s @ w2 @ ''```'' @ post) = None
          \<or> dec (pre @ ''```json'' @ w1 @ s @ w2 @ ''```'' @ post) = Some J"
  proof -
    have "tagged_fence_candidate (pre @ ''```json'' @ (w1 @ s @ w2) @ ''```'' @ post)
            = Some (py_strip (w1 @ s @ w2))"
      using pre bc by (rule tagged_fence_candidate_layout)
    then have "first_applicable (pre @ ''```json'' @ w1 @ s @ w2 @ ''```'' @ post) = Some s"
      by (simp add: first_applicable_def strip)
    with d ser show ?thesis by (rule parse_via_candidate)
  qed
  have c: "parse_json_response dec (pre @ ''```'' @ w1 @ s @ w2 @ ''```'' @ post) = Inr J"
    if d: "dec (pre @ ''```'' @ w1 @ s @ w2 @ ''```'' @ post) = None
          \<or> dec (pre @ ''```'' @ w1 @ s @ w2 @ ''```'' @ post) = Some J"
      and nt: "\<not> py_in ''```json'' (pre @ ''```'' @ w1 @ s @ w2 @ ''```'' @ post)"
  proof -
    have "fence_candidate (pre @ ''```'' @ (w1 @ s @ w2) @ ''```'' @ post)
            = Some (py_strip (w1 @ s @ w2))"
      using pre bc by (rule fence_candidate_layout)
    moreover have "tagged_fence_candidate (pre @ ''```'' @ w1 @ s @ w2 @ ''```'' @ post) = None"
      using nt by (simp add: tagged_fence_candidate_def)
    ultimately have "first_applicable (pre @ ''```'' @ w1 @ s @ w2 @ ''```'' @ post) = Some s"
      by (simp add: first_applicable_def strip)
    with d ser show ?thesis by (rule parse_via_candidate)
  qed
  have d: "parse_json_response dec (p1 @ s @ p2) = Inr J"
    if d: "dec (p1 @ s @ p2) = None \<or> dec (p1 @ s @ p2) = Some J"
      and nf: "\<not> py_in ''```'' (p1 @ s @ p2)"
      and p: "CHR ''{'' \<notin> set p1" "CHR ''}'' \<notin> set p2"
  proof -
    have "braces_candidate (p1 @ s @ p2) = Some s"
      using obj p by (rule braces_candidate_layout)
    with candidates_no_fence [OF nf] have "first_applicable (p1 @ s @ p2) = Some s"
      by (simp add: first_applicable_def)
    with d ser show ?thesis by (rule parse_via_candidate)
  qed
  have e: "parse_json_response dec t
              = Inl (JSONDecodeError (Some (''Could not find valid JSON in response'', 0)) t)"
    if "dec t = None" "CHR ''{'' \<notin> set t" "\<not> py_in ''```'' t"
  proof -
    have "first_applicable t = None"
      using candidates_no_fence [OF that(3)] braces_candidate_none [OF that(2)]
      by (simp add: first_applicable_def)
    with that(1) show ?thesis unfolding parse_json_response_chosen by simp
  qed
  show ?thesis using a b c d e by blast
qed

theorem parse_json_response_layouts_witness:
  "parse_json_response json_decode ''{\"a\": [1, \"x\"]}'' = Inr (PyDict [(''a'', PyList [PyInt 1, PyStr ''x''])])
   \<and> parse_json_response json_decode
        (''Here it is: ```json'' @ [CHR 0x0A] @ ''{\"a\": [1, \"x\"]}'' @ [CHR 0x0A] @ ''```'' @ '' Done.'')
       = Inr (PyDict [(''a'', PyList [PyInt 1, PyStr ''x''])])
   \<and> parse_json_response json_decode
        (''Here it is: ```'' @ [CHR 0x0A] @ ''{\"a\": [1, \"x\"]}'' @ [CHR 0x0A] @ ''```'' @ '' Done.'')
       = Inr (PyDict [(''a'', PyList [PyInt 1, PyStr ''x''])])
   \<and> parse_json_response json_decode (''Here it is: '' @ ''{\"a\": [1, \"x\"]}'' @ '' Done.'')
       = Inr (PyDict [(''a'', PyList [PyInt 1, PyStr ''x''])])
   \<and> parse_json_response json_decode ''Sorry, I cannot help.''
       = Inl (JSONDecodeError (Some (''Could not find valid JSON in response'', 0))
               ''Sorry, I cannot help.'')"
proof -
  have ser: "json_decode ''{\"a\": [1, \"x\"]}'' = Some (PyDict [(''a'', PyList [PyInt 1, PyStr ''x''])])"
    by code_simp
  have obj: "''{\"a\": [1, \"x\"]}'' \<noteq> []" "hd ''{\"a\": [1, \"x\"]}'' = CHR ''{''"
    "last ''{\"a\": [1, \"x\"]}'' = CHR ''}''"
    by simp_all
  have nof: "\<not> py_in ''```'' ''{\"a\": [1, \"x\"]}''" by code_simp
  have ws: "\<forall>c \<in> set [CHR 0x0A]. py_isspace c" by (simp add: py_isspace_def)
  have pre: "CHR 0x60 \<notin> set ''Here it is: ''" by simp
  have h1: "json_decode (''Here it is: '' @ ''```json'' @ [CHR 0x0A] @ ''{\"a\": [1, \"x\"]}''
              @ [CHR 0x0A] @ ''```'' @ '' Done.'') = None"
    by code_simp
  have h2: "json_decode (''Here it is: '' @ ''```'' @ [CHR 0x0A] @ ''{\"a\": [1, \"x\"]}''
              @ [CHR 0x0A] @ ''```'' @ '' Done.'') = None"
    "\<not> py_in ''```json'' (''Here it is: '' @ ''```'' @ [CHR 0x0A] @ ''{\"a\": [1, \"x\"]}''
              @ [CHR 0x0A] @ ''```'' @ '' Done.'')"
    by code_simp+
  have h3: "json_decode (''Here it is: '' @ ''{\"a\": [1, \"x\"]}'' @ '' Done.'') = None"
    "\<not> py_in ''```'' (''Here it is: '' @ ''{\"a\": [1, \"x\"]}'' @ '' Done.'')"
    "CHR ''{'' \<notin> set ''Here it is: ''" "CHR ''}'' \<notin> set '' Done.''"
    by code_simp+
  have h4: "json_decode ''Sorry, I cannot help.'' = None"
    "CHR ''{'' \<notin> set ''Sorry, I cannot help.''" "\<not> py_in ''```'' ''Sorry, I cannot help.''"
    by code_simp+
  from parse_json_response_layouts [of json_decode "''{\"a\": [1, \"x\"]}''"
      "PyDict [(''a'', PyList [PyInt 1, PyStr ''x''])]" "[CHR 0x0A]" "[CHR 0x0A]"
      "''Here it is: ''" "'' Done.''" "''Here it is: ''" "'' Done.''"
      "''Sorry, I cannot help.''", OF ser obj nof ws ws pre]
    h1 h2 h3 h4
  show ?thesis by simp
qed

text \<open>
  C2 as stated fails. The object \<open>{"a": "```"}\<close> is recovered from its serialization
  alone, but not from the same serialization inside a \<open>```json\<close> fence: the search for
  the closing fence stops inside the string. And the reply \<open>[1, 2]\<close> holds no \<open>{\<close>, yet no
  failure is raised: the list is returned.
\<close>

theorem parse_json_response_layouts_fail:
  "json_decode ''{\"a\": \"```\"}'' = Some (PyDict [(''a'', PyStr ''```'')])
   \<and> parse_json_response json_decode ''{\"a\": \"```\"}'' = Inr (PyDict [(''a'', PyStr ''```'')])
   \<and> parse_json_response json_decode
        (''```json'' @ [CHR 0x0A] @ ''{\"a\": \"```\"}'' @ [CHR 0x0A] @ ''```'')
       = Inl (JSONDecodeError None ''{\"a\": \"'')
   \<and> CHR ''{'' \<notin> set ''[1, 2]''
   \<and> parse_json_response json_decode ''[1, 2]'' = Inr (PyList [PyInt 1, PyInt 2])"
  by code_simp

section \<open>Properties of the analysis call\<close>

text \<open>
  C4 (the code at the failing input). When the endpoint call raises the timeout exception
  of the client library, \<open>analyze_rfp\<close> raises the generic message
  \<open>Claude API error: ...\<close>, not the message of its timeout clause: the timeout class is
  an instance of \<open>APIError\<close>, whose clause comes first.
\<close>

theorem analyze_rfp_timeout_generic:
  "analyze_rfp str_of dec (timing_out m) pdf_base64 prompt
     = Inl (Exception (''Claude API error: '' @ str_of (AnthropicError APITimeoutError m)))
   \<and> analyze_rfp str_of dec (timing_out m) pdf_base64 prompt
     \<noteq> Inl (Exception ''Request timed out. Please try again.'')"
  by (simp add: analyze_rfp_def analyze_rfp_body_def timing_out_def)

section \<open>Properties of upload validation\<close>

lemma size_check: "(real n / (1024 * 1024) > 10) = (n > 10 * 1024 * 1024)"
  by (simp add: field_simps)

text \<open>
  C5. The upload validator returns pass exactly for a stream of at most 10 MiB that the PDF
  library parses with at least one page. On pass no message is shown; on every failure (the
  stream is over 10 MiB, or parses with zero pages, or does not parse) exactly one message
  is shown and it is not empty. \<open>validate_pdf\<close> alone passes exactly when the stream
  parses with at least one page, and its reason is not empty when it fails.
\<close>

theorem validate_file_upload_verdict:
  "(fst (fst (validate_file_upload reader fmt2 f))
      = (length (data f) \<le> 10 * 1024 * 1024 \<and> (\<exists>n. fst (reader f) = Pages n \<and> 1 \<le> n)))
   \<and> (fst (fst (validate_file_upload reader fmt2 f)) \<longrightarrow>
        snd (fst (validate_file_upload reader fmt2 f)) = [])
   \<and> (\<not> fst (fst (validate_file_upload reader fmt2 f)) \<longrightarrow>
        (\<exists>reason. snd (fst (validate_file_upload reader fmt2 f)) = [reason] \<and> reason \<noteq> []))
   \<and> (fst (fst (validate_pdf reader f)) = (\<exists>n. fst (reader f) = Pages n \<and> 1 \<le> n))
   \<and> (\<not> fst (fst (validate_pdf reader f)) \<longrightarrow> snd (fst (validate_pdf reader f)) \<noteq> [])"
proof -
  obtain oc p where r: "reader f = (oc, p)" by (cases "reader f")
  show ?thesis
    by (cases oc)
       (auto simp: validate_file_upload_def validate_pdf_def r size_check Let_def cross_mark_def
          simp del: of_nat_mult of_nat_numeral)
qed

theorem validate_file_upload_verdict_witness:
  "fst (validate_file_upload magic_reader two_decimals
         \<lparr>name = ''rfp.pdf'', data = ''%PDF-1.7 body'', pos = 0\<rparr>) = (True, [])
   \<and> fst (validate_file_upload magic_reader two_decimals
         \<lparr>name = ''notes.txt'', data = ''hello'', pos = 0\<rparr>)
       = (False, [cross_mark @ '' File is not a valid PDF or is corrupted''])
   \<and> \<not> fst (fst (validate_file_upload magic_reader two_decimals
         \<lparr>name = ''big.pdf'', data = replicate 10485761 (CHR ''x''), pos = 0\<rparr>))"
proof -
  have a: "fst (validate_file_upload magic_reader two_decimals
         \<lparr>name = ''rfp.pdf'', data = ''%PDF-1.7 body'', pos = 0\<rparr>) = (True, [])"
    using validate_file_upload_verdict [of magic_reader two_decimals
        "\<lparr>name = ''rfp.pdf'', data = ''%PDF-1.7 body'', pos = 0\<rparr>"]
    by (simp add: validate_file_upload_def validate_pdf_def magic_reader_def seek_def)
  have b: "fst (validate_file_upload magic_reader two_decimals
         \<lparr>name = ''notes.txt'', data = ''hello'', pos = 0\<rparr>)
       = (False, [cross_mark @ '' File is not a valid PDF or is corrupted''])"
    by (simp add: validate_file_upload_def validate_pdf_def magic_reader_def)
  have "\<not> length (data \<lparr>name = ''big.pdf'', data = replicate 10485761 (CHR ''x''), pos = 0\<rparr>)
          \<le> 10 * 1024 * 1024"
    by simp
  with validate_file_upload_verdict [of magic_reader two_decimals
        "\<lparr>name = ''big.pdf'', data = replicate 10485761 (CHR ''x''), pos = 0\<rparr>"]
  have c: "\<not> fst (fst (validate_file_upload magic_reader two_decimals
         \<lparr>name = ''big.pdf'', data = replicate 10485761 (CHR ''x''), pos = 0\<rparr>))"
    by blast
  from a b c show ?thesis by blast
qed

text \<open>
  C6 (as the code has it). Whenever the PDF library parses the stream (the outcome is pass,
  or fail for zero pages), the position is 0 after \<open>validate_pdf\<close>, and after
  \<open>validate_file_upload\<close> when the size check lets the stream through. When the size
  check rejects, the stream is returned untouched. On every path the name and the bytes
  of the stream are unchanged.
\<close>

theorem validate_rewinds_after_parse:
  "((\<exists>n. fst (reader f) = Pages n) \<longrightarrow>
       snd (validate_pdf reader f) = f\<lparr>pos := 0\<rparr>
       \<and> (length (data f) \<le> 10 * 1024 * 1024 \<longrightarrow>
            snd (validate_file_upload reader fmt2 f) = f\<lparr>pos := 0\<rparr>))
   \<and> (length (data f) > 10 * 1024 * 1024 \<longrightarrow> snd (validate_file_upload reader fmt2 f) = f)
   \<and> name (snd (validate_pdf reader f)) = name f
   \<and> data (snd (validate_pdf reader f)) = data f
   \<and> name (snd (validate_file_upload reader fmt2 f)) = name f
   \<and> data (snd (validate_file_upload reader fmt2 f)) = data f"
proof -
  obtain oc p where r: "reader f = (oc, p)" by (cases "reader f")
  show ?thesis
    by (cases oc)
       (auto simp: validate_file_upload_def validate_pdf_def r size_check Let_def seek_def
          simp del: of_nat_mult of_nat_numeral)
qed

theorem validate_rewinds_after_parse_witness:
  "snd (validate_file_upload magic_reader two_decimals
         \<lparr>name = ''rfp.pdf'', data = ''%PDF-1.7 body'', pos = 0\<rparr>)
     = \<lparr>name = ''rfp.pdf'', data = ''%PDF-1.7 body'', pos = 0\<rparr>
   \<and> magic_reader \<lparr>name = ''rfp.pdf'', data = ''%PDF-1.7 body'', pos = 0\<rparr> = (Pages 1, 13)"
  using validate_rewinds_after_parse [of magic_reader
      "\<lparr>name = ''rfp.pdf'', data = ''%PDF-1.7 body'', pos = 0\<rparr>" two_decimals]
  by (simp add: magic_reader_def)

text \<open>
  C6 as stated fails: when the library raises \<open>PdfReadError\<close> after reading from the
  stream, the \<open>seek(0)\<close> of the \<open>try\<close> block is skipped and the position stays where
  the library left it.
\<close>

theorem validate_pdf_not_rewound:
  "validate_pdf magic_reader \<lparr>name = ''notes.txt'', data = ''hello'', pos = 0\<rparr>
     = ((False, ''File is not a valid PDF or is corrupted''),
        \<lparr>name = ''notes.txt'', data = ''hello'', pos = 5\<rparr>)
   \<and> pos (snd (validate_file_upload magic_reader two_decimals
              \<lparr>name = ''notes.txt'', data = ''hello'', pos = 0\<rparr>)) = 5"
  by (simp add: validate_file_upload_def validate_pdf_def magic_reader_def)

section \<open>Properties of the report renderer\<close>

lemma dict_get_map_of:
  "dict_get d k dflt = (case map_of d k of Some v \<Rightarrow> v | None \<Rightarrow> dflt)"
  by (simp add: dict_get_def)

lemma timeline_rows_records:
  "list_all is_record items \<Longrightarrow> timeline_rows items = Inr (map entry_row items)"
proof (induction items)
  case Nil
  then show ?case by simp
next
  case (Cons item items)
  then obtain d where "item = PyDict d" by (cases item) auto
  with Cons show ?case by (simp add: dict_get_def)
qed

text \<open>
  C7 (as the code has it). For every timeline list that is not empty and whose entries are
  records, the timeline section holds one table: the header row (Event, Date) followed by
  exactly one row per entry, in order, the row of an entry being the value of its event
  field, or \<open>Unknown Event\<close> when it lacks the field, and the value of its date field, or
  \<open>TBD\<close> when it lacks the field.
\<close>

theorem create_timeline_section_table:
  assumes "items \<noteq> []" "list_all is_record items"
  shows "create_timeline_section (PyList items)
           = Inr [Paragraph ''Timeline & Key Dates'' SectionHeader,
                  Paragraph ''Important milestones and deadlines:'' Normal,
                  Spacer 1 12,
                  Table ([PyStr ''Event'', PyStr ''Date''] # map entry_row items)
                    [4 * inch, 2 * inch],
                  Spacer 1 20]
         \<and> length ([PyStr ''Event'', PyStr ''Date''] # map entry_row items) = 1 + length items
         \<and> (\<forall>i < length items. \<forall>d. items ! i = PyDict d \<longrightarrow>
               (map entry_row items) ! i
                 = [case map_of d ''event'' of Some v \<Rightarrow> v | None \<Rightarrow> PyStr ''Unknown Event'',
                    case map_of d ''date'' of Some v \<Rightarrow> v | None \<Rightarrow> PyStr ''TBD''])"
  using assms by (simp add: create_timeline_section_def timeline_rows_records)

theorem create_timeline_section_table_witness:
  "create_timeline_section
      (PyList [PyDict [(''event'', PyStr ''Kickoff'')],
               PyDict [(''event'', PyStr ''Proposal Due''), (''date'', PyStr ''2025-03-01'')],
               PyDict [(''date'', PyStr ''2025-04-01'')]])
     = Inr [Paragraph ''Timeline & Key Dates'' SectionHeader,
            Paragraph ''Important milestones and deadlines:'' Normal,
            Spacer 1 12,
            Table [[PyStr ''Event'', PyStr ''Date''],
                   [PyStr ''Kickoff'', PyStr ''TBD''],
                   [PyStr ''Proposal Due'', PyStr ''2025-03-01''],
                   [PyStr ''Unknown Event'', PyStr ''2025-04-01'']]
              [4 * inch, 2 * inch],
            Spacer 1 20]"
  using create_timeline_section_table [of
      "[PyDict [(''event'', PyStr ''Kickoff'')],
        PyDict [(''event'', PyStr ''Proposal Due''), (''date'', PyStr ''2025-03-01'')],
        PyDict [(''date'', PyStr ''2025-04-01'')]]"]
  by simp

text \<open>
  C7 as stated fails for the empty timeline list: the section then holds no table, with
  no header row, but the line \<open>No timeline information available.\<close>
\<close>

theorem create_timeline_section_empty:
  "create_timeline_section (PyList [])
     = Inr [Paragraph ''Timeline & Key Dates'' SectionHeader,
            Paragraph ''Important milestones and deadlines:'' Normal,
            Spacer 1 12,
            Paragraph ''No timeline information available.'' Normal,
            Spacer 1 20]"
  by (simp add: create_timeline_section_def)

lemma bullet_paragraphs_accepted:
  "\<forall>item \<in> set xs. accepts (bullet @ '' '' @ py_strip (py_str repr item)) \<Longrightarrow>
   bullet_paragraphs accepts repr xs
     = Inr (map (\<lambda>item. Paragraph (bullet @ '' '' @ py_strip (py_str repr item)) BulletText) xs)"
  by (induction xs) (simp_all add: mk_paragraph_def Let_def)

lemma create_bullet_section_list:
  assumes "accepts heading" "accepts intro" "intro \<noteq> []"
    and "\<forall>item \<in> set xs. accepts (bullet @ '' '' @ py_strip (py_str repr item))"
  shows "create_bullet_section accepts repr heading (PyList xs) (Some intro)
           = Inr ([Paragraph heading SectionHeader, Paragraph intro Normal, Spacer 1 12]
                  @ (if xs = [] then [Paragraph ''No items identified.'' Normal]
                     else map (\<lambda>item. Paragraph (bullet @ '' '' @ py_strip (py_str repr item))
                                        BulletText) xs)
                  @ [Spacer 1 20])"
  using assms
  by (simp add: create_bullet_section_def mk_paragraph_def Let_def bullet_paragraphs_accepted)

lemma timeline_section_records:
  "list_all is_record xs \<Longrightarrow>
   create_timeline_section (PyList xs)
     = Inr ([Paragraph ''Timeline & Key Dates'' SectionHeader,
             Paragraph ''Important milestones and deadlines:'' Normal,
             Spacer 1 12]
            @ (if xs = [] then [Paragraph ''No timeline information available.'' Normal]
               else [Table ([PyStr ''Event'', PyStr ''Date''] # map entry_row xs) [288, 144]])
            @ [Spacer 1 20])"
  by (cases "xs = []")
     (simp_all add: create_timeline_section_def timeline_rows_records Let_def inch_def)

lemma dict_get_list_or_missing:
  "map_of d k = Some (PyList x) \<or> map_of d k = None \<and> x = [] \<Longrightarrow>
   dict_get d k (PyList []) = PyList x"
  by (auto simp: dict_get_def)

lemma dict_get_append_defaults:
  "dict_get (d @ map (\<lambda>k. (k, dflt)) ks) k' dflt = dict_get d k' dflt"
proof -
  have "map_of (map (\<lambda>k. (k, dflt)) ks) k' = None
        \<or> map_of (map (\<lambda>k. (k, dflt)) ks) k' = Some dflt"
    by (induction ks) auto
  then show ?thesis
    by (auto simp: dict_get_def map_add_def split: option.splits)
qed

lemma generate_analysis_pdf_append_defaults:
  "generate_analysis_pdf accepts build repr now
       (analysis @ map (\<lambda>k. (k, PyList [])) ks) rfp_filename
     = generate_analysis_pdf accepts build repr now analysis rfp_filename"
  unfolding generate_analysis_pdf_def dict_get_append_defaults ..

lemma title_page_accepted:
  "accepts (''Source: '' @ rfp_filename) \<Longrightarrow> accepts (''Generated: '' @ now) \<Longrightarrow>
   title_page accepts now rfp_filename
     = Inr [Spacer 1 108,
            Paragraph ''RFP Analysis Report'' CustomTitle,
            Spacer 1 (6079859496950169 / 281474976710656),
            Paragraph (''Source: '' @ rfp_filename) Metadata,
            Paragraph (''Generated: '' @ now) Metadata,
            PageBreak]"
  by (simp add: title_page_def mk_paragraph_def)

text \<open>
  C10 (as the code has it). The renderer reads the analysis through
  \<open>analysis.get(key, [])\<close> only, so a missing key is the same as an empty list: for every
  analysis and every set of keys missing from it, storing an empty list under each of
  them changes nothing of the outcome, whatever the outcome is. When each of the keys
  \<open>client_problems\<close>, \<open>requirements\<close>, \<open>gotchas\<close> is missing or holds a list, the key
  \<open>timeline\<close> is missing or holds a list of records, and the library accepts as markup
  the source line, the time line, the three headings, the three introductions and the
  line of every item, the renderer hands to the library's \<open>build\<close> the letter-size
  document with margins of 72 points and with exactly the story below, and returns what
  \<open>build\<close> returns: the title page, then for each of the three keys its heading, its
  introduction, a spacer, one bullet line per item in order (\<open>No items identified.\<close>
  when the key is missing or its list is empty) and a spacer, then the timeline section
  (\<open>No timeline information available.\<close> when the key is missing or its list is empty).
\<close>

theorem generate_analysis_pdf_missing_keys:
  "(set ks \<inter> fst ` set analysis = {} \<longrightarrow>
      generate_analysis_pdf accepts build repr now
          (analysis @ map (\<lambda>k. (k, PyList [])) ks) rfp_filename
        = generate_analysis_pdf accepts build repr now analysis rfp_filename)
   \<and> ((map_of analysis ''client_problems'' = Some (PyList x1)
          \<or> map_of analysis ''client_problems'' = None \<and> x1 = [])
       \<and> (map_of analysis ''requirements'' = Some (PyList x2)
          \<or> map_of analysis ''requirements'' = None \<and> x2 = [])
       \<and> (map_of analysis ''gotchas'' = Some (PyList x3)
          \<or> map_of analysis ''gotchas'' = None \<and> x3 = [])
       \<and> (map_of analysis ''timeline'' = Some (PyList x4)
          \<or> map_of analysis ''timeline'' = None \<and> x4 = [])
       \<and> list_all is_record x4
       \<and> accepts (''Source: '' @ rfp_filename)
       \<and> accepts (''Generated: '' @ now)
       \<and> accepts ''Client Problems & Challenges''
       \<and> accepts ''Key issues and challenges the client is trying to resolve:''
       \<and> accepts ''Specific Requirements''
       \<and> accepts ''Must-have requirements, deliverables, and constraints:''
       \<and> accepts ''Gotchas & Ambiguities''
       \<and> accepts ''Red-flag items that need clarification:''
       \<and> (\<forall>item \<in> set (x1 @ x2 @ x3).
             accepts ([CHR 0xE2, CHR 0x80, CHR 0xA2] @ '' '' @ py_strip (py_str repr item)))
       \<longrightarrow>
       generate_analysis_pdf accepts build repr now analysis rfp_filename
         = build \<lparr>pagesize = (612, 792), margins = (72, 72, 72, 72),
             story =
               [Spacer 1 108,
                Paragraph ''RFP Analysis Report'' CustomTitle,
                Spacer 1 (6079859496950169 / 281474976710656),
                Paragraph (''Source: '' @ rfp_filename) Metadata,
                Paragraph (''Generated: '' @ now) Metadata,
                PageBreak]
               @ [Paragraph ''Client Problems & Challenges'' SectionHeader,
                  Paragraph ''Key issues and challenges the client is trying to resolve:'' Normal,
                  Spacer 1 12]
               @ (if x1 = [] then [Paragraph ''No items identified.'' Normal]
                  else map (\<lambda>item. Paragraph ([CHR 0xE2, CHR 0x80, CHR 0xA2] @ '' ''
                                                 @ py_strip (py_str repr item)) BulletText) x1)
               @ [Spacer 1 20]
               @ [Paragraph ''Specific Requirements'' SectionHeader,
                  Paragraph ''Must-have requirements, deliverables, and constraints:'' Normal,
                  Spacer 1 12]
               @ (if x2 = [] then [Paragraph ''No items identified.'' Normal]
                  else map (\<lambda>item. Paragraph ([CHR 0xE2, CHR 0x80, CHR 0xA2] @ '' ''
                                                 @ py_strip (py_str repr item)) BulletText) x2)
               @ [Spacer 1 20]
               @ [Paragraph ''Gotchas & Ambiguities'' SectionHeader,
                  Paragraph ''Red-flag items that need clarification:'' Normal,
                  Spacer 1 12]
               @ (if x3 = [] then [Paragraph ''No items identified.'' Normal]
                  else map (\<lambda>item. Paragraph ([CHR 0xE2, CHR 0x80, CHR 0xA2] @ '' ''
                                                 @ py_strip (py_str repr item)) BulletText) x3)
               @ [Spacer 1 20]
               @ [Paragraph ''Timeline & Key Dates'' SectionHeader,
                  Paragraph ''Important milestones and deadlines:'' Normal,
                  Spacer 1 12]
               @ (if x4 = [] then [Paragraph ''No timeline information available.'' Normal]
                  else [Table ([PyStr ''Event'', PyStr ''Date''] # map entry_row x4) [288, 144]])
               @ [Spacer 1 20]\<rparr>)"
proof (intro conjI impI)
  show "generate_analysis_pdf accepts build repr now
          (analysis @ map (\<lambda>k. (k, PyList [])) ks) rfp_filename
        = generate_analysis_pdf accepts build repr now analysis rfp_filename"
    by (rule generate_analysis_pdf_append_defaults)
next
  let ?b = "\<lambda>item. [CHR 0xE2, CHR 0x80, CHR 0xA2] @ '' '' @ py_strip (py_str repr item)"
  assume h: "(map_of analysis ''client_problems'' = Some (PyList x1)
          \<or> map_of analysis ''client_problems'' = None \<and> x1 = [])
       \<and> (map_of analysis ''requirements'' = Some (PyList x2)
          \<or> map_of analysis ''requirements'' = None \<and> x2 = [])
       \<and> (map_of analysis ''gotchas'' = Some (PyList x3)
          \<or> map_of analysis ''gotchas'' = None \<and> x3 = [])
       \<and> (map_of analysis ''timeline'' = Some (PyList x4)
          \<or> map_of analysis ''timeline'' = None \<and> x4 = [])
       \<and> list_all is_record x4
       \<and> accepts (''Source: '' @ rfp_filename)
       \<and> accepts (''Generated: '' @ now)
       \<and> accepts ''Client Problems & Challenges''
       \<and> accepts ''Key issues and challenges the client is trying to resolve:''
       \<and> accepts ''Specific Requirements''
       \<and> accepts ''Must-have requirements, deliverables, and constraints:''
       \<and> accepts ''Gotchas & Ambiguities''
       \<and> accepts ''Red-flag items that need clarification:''
       \<and> (\<forall>item \<in> set (x1 @ x2 @ x3). accepts (?b item))"
  have g1: "dict_get analysis ''client_problems'' (PyList []) = PyList x1"
    using h by (intro dict_get_list_or_missing) blast
  have g2: "dict_get analysis ''requirements'' (PyList []) = PyList x2"
    using h by (intro dict_get_list_or_missing) blast
  have g3: "dict_get analysis ''gotchas'' (PyList []) = PyList x3"
    using h by (intro dict_get_list_or_missing) blast
  have g4: "dict_get analysis ''timeline'' (PyList []) = PyList x4"
    using h by (intro dict_get_list_or_missing) blast
  have a1: "\<forall>item \<in> set x1. accepts (bullet @ '' '' @ py_strip (py_str repr item))"
    and a2: "\<forall>item \<in> set x2. accepts (bullet @ '' '' @ py_strip (py_str repr item))"
    and a3: "\<forall>item \<in> set x3. accepts (bullet @ '' '' @ py_strip (py_str repr item))"
    using h unfolding bullet_def by auto
  have t: "title_page accepts now rfp_filename
     = Inr [Spacer 1 108,
            Paragraph ''RFP Analysis Report'' CustomTitle,
            Spacer 1 (6079859496950169 / 281474976710656),
            Paragraph (''Source: '' @ rfp_filename) Metadata,
            Paragraph (''Generated: '' @ now) Metadata,
            PageBreak]"
    using h by (intro title_page_accepted) blast+
  have s1: "create_bullet_section accepts repr ''Client Problems & Challenges'' (PyList x1)
              (Some ''Key issues and challenges the client is trying to resolve:'')
           = Inr ([Paragraph ''Client Problems & Challenges'' SectionHeader,
                   Paragraph ''Key issues and challenges the client is trying to resolve:'' Normal,
                   Spacer 1 12]
                  @ (if x1 = [] then [Paragraph ''No items identified.'' Normal]
                     else map (\<lambda>item. Paragraph (bullet @ '' '' @ py_strip (py_str repr item))
                                        BulletText) x1)
                  @ [Spacer 1 20])"
    using h a1 by (intro create_bullet_section_list) simp_all
  have s2: "create_bullet_section accepts repr ''Specific Requirements'' (PyList x2)
              (Some ''Must-have requirements, deliverables, and constraints:'')
           = Inr ([Paragraph ''Specific Requirements'' SectionHeader,
                   Paragraph ''Must-have requirements, deliverables, and constraints:'' Normal,
                   Spacer 1 12]
                  @ (if x2 = [] then [Paragraph ''No items identified.'' Normal]
                     else map (\<lambda>item. Paragraph (bullet @ '' '' @ py_strip (py_str repr item))
                                        BulletText) x2)
                  @ [Spacer 1 20])"
    using h a2 by (intro create_bullet_section_list) simp_all
  have s3: "create_bullet_section accepts repr ''Gotchas & Ambiguities'' (PyList x3)
              (Some ''Red-flag items that need clarification:'')
           = Inr ([Paragraph ''Gotchas & Ambiguities'' SectionHeader,
                   Paragraph ''Red-flag items that need clarification:'' Normal,
                   Spacer 1 12]
                  @ (if x3 = [] then [Paragraph ''No items identified.'' Normal]
                     else map (\<lambda>item. Paragraph (bullet @ '' '' @ py_strip (py_str repr item))
                                        BulletText) x3)
                  @ [Spacer 1 20])"
    using h a3 by (intro create_bullet_section_list) simp_all
  have s4: "create_timeline_section (PyList x4)
     = Inr ([Paragraph ''Timeline & Key Dates'' SectionHeader,
             Paragraph ''Important milestones and deadlines:'' Normal,
             Spacer 1 12]
            @ (if x4 = [] then [Paragraph ''No timeline information available.'' Normal]
               else [Table ([PyStr ''Event'', PyStr ''Date''] # map entry_row x4) [288, 144]])
            @ [Spacer 1 20])"
    using h by (intro timeline_section_records) blast
  show "generate_analysis_pdf accepts build repr now analysis rfp_filename
         = build \<lparr>pagesize = (612, 792), margins = (72, 72, 72, 72),
             story =
               [Spacer 1 108,
                Paragraph ''RFP Analysis Report'' CustomTitle,
                Spacer 1 (6079859496950169 / 281474976710656),
                Paragraph (''Source: '' @ rfp_filename) Metadata,
                Paragraph (''Generated: '' @ now) Metadata,
                PageBreak]
               @ [Paragraph ''Client Problems & Challenges'' SectionHeader,
                  Paragraph ''Key issues and challenges the client is trying to resolve:'' Normal,
                  Spacer 1 12]
               @ (if x1 = [] then [Paragraph ''No items identified.'' Normal]
                  else map (\<lambda>item. Paragraph (?b item) BulletText) x1)
               @ [Spacer 1 20]
               @ [Paragraph ''Specific Requirements'' SectionHeader,
                  Paragraph ''Must-have requirements, deliverables, and constraints:'' Normal,
                  Spacer 1 12]
               @ (if x2 = [] then [Paragraph ''No items identified.'' Normal]
                  else map (\<lambda>item. Paragraph (?b item) BulletText) x2)
               @ [Spacer 1 20]
               @ [Paragraph ''Gotchas & Ambiguities'' SectionHeader,
                  Paragraph ''Red-flag items that need clarification:'' Normal,
                  Spacer 1 12]
               @ (if x3 = [] then [Paragraph ''No items identified.'' Normal]
                  else map (\<lambda>item. Paragraph (?b item) BulletText) x3)
               @ [Spacer 1 20]
               @ [Paragraph ''Timeline & Key Dates'' SectionHeader,
                  Paragraph ''Important milestones and deadlines:'' Normal,
                  Spacer 1 12]
               @ (if x4 = [] then [Paragraph ''No timeline information available.'' Normal]
                  else [Table ([PyStr ''Event'', PyStr ''Date''] # map entry_row x4) [288, 144]])
               @ [Spacer 1 20]\<rparr>"
    unfolding generate_analysis_pdf_def g1 g2 g3 g4 t s1 s2 s3 s4 sum.case bullet_def
    by (simp only: append_assoc)
qed

theorem generate_analysis_pdf_missing_keys_witness:
  "generate_analysis_pdf plain_markup Inr repr_none ''November 04, 2026 at 02:30 PM''
      [(''gotchas'', PyList [PyStr '' Budget not disclosed '', PyNone]),
       (''timeline'', PyList [PyDict [(''event'', PyStr ''Kickoff'')]])] ''rfp.pdf''
     = Inr \<lparr>pagesize = (612, 792), margins = (72, 72, 72, 72),
            story =
              [Spacer 1 108,
               Paragraph ''RFP Analysis Report'' CustomTitle,
               Spacer 1 (6079859496950169 / 281474976710656),
               Paragraph ''Source: rfp.pdf'' Metadata,
               Paragraph ''Generated: November 04, 2026 at 02:30 PM'' Metadata,
               PageBreak,
               Paragraph ''Client Problems & Challenges'' SectionHeader,
               Paragraph ''Key issues and challenges the client is trying to resolve:'' Normal,
               Spacer 1 12,
               Paragraph ''No items identified.'' Normal,
               Spacer 1 20,
               Paragraph ''Specific Requirements'' SectionHeader,
               Paragraph ''Must-have requirements, deliverables, and constraints:'' Normal,
               Spacer 1 12,
               Paragraph ''No items identified.'' Normal,
               Spacer 1 20,
               Paragraph ''Gotchas & Ambiguities'' SectionHeader,
               Paragraph ''Red-flag items that need clarification:'' Normal,
               Spacer 1 12,
               Paragraph ([CHR 0xE2, CHR 0x80, CHR 0xA2] @ '' Budget not disclosed'') BulletText,
               Paragraph ([CHR 0xE2, CHR 0x80, CHR 0xA2] @ '' None'') BulletText,
               Spacer 1 20,
               Paragraph ''Timeline & Key Dates'' SectionHeader,
               Paragraph ''Important milestones and deadlines:'' Normal,
               Spacer 1 12,
               Table [[PyStr ''Event'', PyStr ''Date''], [PyStr ''Kickoff'', PyStr ''TBD'']]
                 [288, 144],
               Spacer 1 20]\<rparr>
   \<and> generate_analysis_pdf plain_markup Inr repr_none ''November 04, 2026 at 02:30 PM''
        ([(''gotchas'', PyList [PyStr '' Budget not disclosed '', PyNone]),
          (''timeline'', PyList [PyDict [(''event'', PyStr ''Kickoff'')]])]
         @ map (\<lambda>k. (k, PyList [])) [''client_problems'', ''requirements'']) ''rfp.pdf''
     = generate_analysis_pdf plain_markup Inr repr_none ''November 04, 2026 at 02:30 PM''
        [(''gotchas'', PyList [PyStr '' Budget not disclosed '', PyNone]),
         (''timeline'', PyList [PyDict [(''event'', PyStr ''Kickoff'')]])] ''rfp.pdf''"
  using generate_analysis_pdf_missing_keys [of
      "[''client_problems'', ''requirements'']"
      "[(''gotchas'', PyList [PyStr '' Budget not disclosed '', PyNone]),
        (''timeline'', PyList [PyDict [(''event'', PyStr ''Kickoff'')]])]"
      plain_markup Inr repr_none "''November 04, 2026 at 02:30 PM''" "''rfp.pdf''"
      "[]" "[]" "[PyStr '' Budget not disclosed '', PyNone]"
      "[PyDict [(''event'', PyStr ''Kickoff'')]]"]
  by (simp add: plain_markup_def repr_none_def py_strip_def py_isspace_def)

text \<open>
  C10 as stated fails: the renderer does not produce a document for every analysis
  dictionary. A key that holds a number makes the loop over the items raise
  \<open>TypeError\<close>; an item whose text the library refuses as markup makes the paragraph raise
  \<open>ValueError\<close>; a timeline entry that is not a record raises \<open>AttributeError\<close>; and with
  all keys missing a file name that the library refuses as markup raises \<open>ValueError\<close>.
\<close>

theorem generate_analysis_pdf_raises:
  "generate_analysis_pdf plain_markup Inr repr_none ''November 04, 2026 at 02:30 PM''
      [(''gotchas'', PyInt 5)] ''rfp.pdf'' = Inl TypeError
   \<and> generate_analysis_pdf plain_markup Inr repr_none ''November 04, 2026 at 02:30 PM''
      [(''gotchas'', PyList [PyStr ''<b>unclosed''])] ''rfp.pdf'' = Inl ValueError
   \<and> generate_analysis_pdf plain_markup Inr repr_none ''November 04, 2026 at 02:30 PM''
      [(''timeline'', PyList [PyStr ''Kickoff''])] ''rfp.pdf'' = Inl AttributeError
   \<and> generate_analysis_pdf plain_markup Inr repr_none ''November 04, 2026 at 02:30 PM''
      [] ''<b>unclosed.pdf'' = Inl ValueError"
  by code_simp

section \<open>Properties of the workbook renderer\<close>













lemma check_string_illegal:
  "\<not> legal_text s \<Longrightarrow> check_string s = Inl (IllegalCharacterError (take 32767 s))"
  by (simp add: check_string_def legal_text_def Let_def)






















end
